theory Spec2Isabelle
  imports Main "HOL-Library.Word"
begin

unbundle bit_operations_syntax

section \<open>pythie-serving: tensor encoding, decoding and sample assembly\<close>

text \<open>
  A shallow embedding of \<^verbatim>\<open>src/pythie_serving/utils.py\<close>. The protobuf messages
  (\<^verbatim>\<open>tensor_pb2\<close>, \<^verbatim>\<open>types_pb2\<close>) are records and datatypes, a numpy array is a
  record of element type, shape and the flat row-major list of its elements, and every
  \<^verbatim>\<open>raise\<close> of the module or of the numpy calls it makes is an \<open>Inl\<close> result.
\<close>

subsection \<open>Wire types and native types\<close>

type_synonym byte = "8 word"
type_synonym bytes = "byte list"

text \<open>
  Modelled from the spec: the generated module \<^verbatim>\<open>types_pb2\<close> with the enumeration
  \<^verbatim>\<open>DataType\<close> is not among the sources. The wire type codes are the fifteen that
  \<^verbatim>\<open>utils.py\<close> names, and any other code of the enumeration, given by its number.
\<close>

datatype DataType =
    DT_HALF | DT_FLOAT | DT_DOUBLE | DT_INT32 | DT_UINT8 | DT_UINT16 | DT_UINT32
  | DT_UINT64 | DT_INT16 | DT_INT8 | DT_STRING | DT_COMPLEX64 | DT_COMPLEX128
  | DT_INT64 | DT_BOOL | DT_other nat

text \<open>
  numpy scalar types. A \<^verbatim>\<open>numpy.dtype\<close> is identified with its \<^verbatim>\<open>.type\<close> attribute;
  the item size of the \<^verbatim>\<open>S\<close> and \<^verbatim>\<open>U\<close> dtypes is not part of the model.
\<close>

datatype np_type =
    np_float16 | np_float32 | np_float64 | np_int8 | np_int16 | np_int32 | np_int64
  | np_uint8 | np_uint16 | np_uint32 | np_uint64 | np_bool | np_complex64 | np_complex128
  | np_object | np_bytes | np_str

text \<open>
  The Python type objects that occur as values of \<^verbatim>\<open>_TF_TO_NP\<close> and as keys of
  \<^verbatim>\<open>_NP_TO_TF\<close>: numpy scalar types and the builtin \<^verbatim>\<open>object\<close>, which is a different
  class from \<^verbatim>\<open>numpy.object_\<close>.
\<close>

datatype py_type = np_class np_type | builtin_object

text \<open>\<^verbatim>\<open>np.dtype(t)\<close>, read through \<^verbatim>\<open>.type\<close>: the builtin \<^verbatim>\<open>object\<close> gives the object dtype.\<close>

fun np_dtype :: "py_type \<Rightarrow> np_type" where
  "np_dtype (np_class t) = t"
| "np_dtype builtin_object = np_object"

subsection \<open>Errors\<close>

datatype type_error =
    Could_not_infer_tensorflow_type np_type
  | Could_not_infer_numpy_type DataType
  | Expect_list_of_bytes
  | Unsupported_tensor_type DataType
  | Iteration_over_0d_array
  | Not_iterable

datatype value_error =
    Cannot_reshape
  | Negative_dimensions
  | Negative_pad_width
  | Cannot_pad_empty
  | Buffer_size_not_multiple
  | Itemsize_zero
  | Object_array_from_buffer
  | Could_not_broadcast

text \<open>
  Modelled from the spec: \<^verbatim>\<open>exceptions.PythieServingException\<close> is not among the
  sources; it is an exception that carries its message. The other errors are Python's,
  each with the raise site of the module or the numpy call it comes from.
\<close>

datatype error =
    TypeError type_error
  | ValueError value_error
  | IndexError
  | KeyError
  | PythieServingException string

text \<open>
  The error kinds of the specification, each as the error that its raise site in the
  module produces.
\<close>

definition UnknownNativeType :: "np_type \<Rightarrow> error" where
  "UnknownNativeType t = TypeError (Could_not_infer_tensorflow_type t)"

definition UnknownLogicalType :: "DataType \<Rightarrow> error" where
  "UnknownLogicalType t = TypeError (Could_not_infer_numpy_type t)"

definition InvalidStringElement :: error where
  "InvalidStringElement = TypeError Expect_list_of_bytes"

definition UnsupportedEncoding :: "DataType \<Rightarrow> error" where
  "UnsupportedEncoding t = TypeError (Unsupported_tensor_type t)"

definition MissingFeature :: "string \<Rightarrow> error" where
  "MissingFeature feature_name =
     PythieServingException (feature_name @ '' not set in the predict request.'')"

definition InvalidLength :: "string \<Rightarrow> error" where
  "InvalidLength feature_name = PythieServingException (feature_name @ '' has invalid length.'')"

definition InvalidShape :: error where
  "InvalidShape = PythieServingException ''All input vectors should be 1D tensor''"

subsection \<open>The type registry\<close>

definition TF_TO_NP :: "(DataType \<times> py_type) list" where
  "TF_TO_NP =
     [(DT_HALF, np_class np_float16), (DT_FLOAT, np_class np_float32), (DT_DOUBLE, np_class np_float64),
      (DT_INT32, np_class np_int32), (DT_UINT8, np_class np_uint8), (DT_UINT16, np_class np_uint16),
      (DT_UINT32, np_class np_uint32), (DT_UINT64, np_class np_uint64), (DT_INT16, np_class np_int16),
      (DT_INT8, np_class np_int8), (DT_STRING, builtin_object), (DT_COMPLEX64, np_class np_complex64),
      (DT_COMPLEX128, np_class np_complex128), (DT_INT64, np_class np_int64), (DT_BOOL, np_class np_bool)]"

text \<open>
  \<^verbatim>\<open>{nt: tt for tt, nt in _TF_TO_NP.items()}\<close>: a later item overrides an earlier one
  with the same key, so the association list is searched from the end. The two string
  types are stored afterwards.
\<close>

definition NP_TO_TF :: "py_type \<Rightarrow> DataType option" where
  "NP_TO_TF =
     (map_of (rev (map (\<lambda>(tt, nt). (nt, tt)) TF_TO_NP)))
       (np_class np_bytes \<mapsto> DT_STRING, np_class np_str \<mapsto> DT_STRING)"

definition get_tf_type :: "np_type \<Rightarrow> error + DataType" where
  "get_tf_type d =
     (case NP_TO_TF (np_class d) of
        None \<Rightarrow> Inl (TypeError (Could_not_infer_tensorflow_type d))
      | Some tt \<Rightarrow> Inr tt)"

definition get_np_dtype :: "DataType \<Rightarrow> error + np_type" where
  "get_np_dtype tf_type =
     (case map_of TF_TO_NP tf_type of
        None \<Rightarrow> Inl (TypeError (Could_not_infer_numpy_type tf_type))
      | Some nt \<Rightarrow> Inr (np_dtype nt))"

subsection \<open>Array elements and arrays\<close>

text \<open>
  Floating-point elements are their IEEE bit patterns, integers are machine words (read
  signed or unsigned as the element type says), a complex number is its pair of parts,
  a boolean is the byte numpy stores for it (\<open>0\<close> is \<^verbatim>\<open>False\<close>).
  An object array holds Python objects; the decoder puts byte strings and the integer 0
  there.
\<close>

datatype pyobject = PyBytes bytes | PyInt int

datatype scalar =
    F16 "16 word" | F32 "32 word" | F64 "64 word"
  | I8 "8 word" | I16 "16 word" | I32 "32 word" | I64 "64 word"
  | U8 "8 word" | U16 "16 word" | U32 "32 word" | U64 "64 word"
  | Bool byte
  | C64 "32 word" "32 word" | C128 "64 word" "64 word"
  | Obj pyobject
  | Bytes bytes
  | Str "nat list"

fun scalar_type :: "scalar \<Rightarrow> np_type" where
  "scalar_type (F16 _) = np_float16"
| "scalar_type (F32 _) = np_float32"
| "scalar_type (F64 _) = np_float64"
| "scalar_type (I8 _) = np_int8"
| "scalar_type (I16 _) = np_int16"
| "scalar_type (I32 _) = np_int32"
| "scalar_type (I64 _) = np_int64"
| "scalar_type (U8 _) = np_uint8"
| "scalar_type (U16 _) = np_uint16"
| "scalar_type (U32 _) = np_uint32"
| "scalar_type (U64 _) = np_uint64"
| "scalar_type (Bool _) = np_bool"
| "scalar_type (C64 _ _) = np_complex64"
| "scalar_type (C128 _ _) = np_complex128"
| "scalar_type (Obj _) = np_object"
| "scalar_type (Bytes _) = np_bytes"
| "scalar_type (Str _) = np_str"

text \<open>
  The byte order of an array's buffer: that of the machine, or the opposite one (as for
  the dtype \<^verbatim>\<open>'>i4'\<close> on a little-endian machine). It belongs to the
  \<^verbatim>\<open>numpy.dtype\<close> and not to its \<^verbatim>\<open>.type\<close>; the elements below are values, whatever
  the order of their bytes in the buffer.
\<close>

datatype byte_order = Native | Swapped

record ndarray =
  byteorder :: byte_order
  dtype :: np_type
  shape :: "int list"
  data :: "scalar list"

definition size_nd :: "ndarray \<Rightarrow> nat" where
  "size_nd a = length (data a)"

text \<open>
  The arrays numpy can build: no negative dimension, as many elements as the shape says
  (fewer than \<open>2 ^ 63\<close>, the range of an array size), every element of the array's
  element type.
\<close>

definition wf_ndarray :: "ndarray \<Rightarrow> bool" where
  "wf_ndarray a \<longleftrightarrow>
     list_all (\<lambda>d. 0 \<le> d) (shape a) \<and>
     int (length (data a)) = prod_list (shape a) \<and>
     prod_list (shape a) < 2 ^ 63 \<and>
     list_all (\<lambda>s. scalar_type s = dtype a) (data a)"

subsection \<open>Element buffers\<close>

text \<open>
  The bytes of a word and the word of some bytes, in the byte order of the machine, which
  the model takes to be little-endian. \<^verbatim>\<open>frombuffer\<close> with a dtype of the registry
  reads in that order.
\<close>

fun le_bytes :: "nat \<Rightarrow> 'a::len word \<Rightarrow> bytes" where
  "le_bytes 0 w = []"
| "le_bytes (Suc n) w = ucast w # le_bytes n (drop_bit 8 w)"

fun le_word :: "bytes \<Rightarrow> 'a::len word" where
  "le_word [] = 0"
| "le_word (b # bs) = ucast b OR push_bit 8 (le_word bs)"

text \<open>
  Item sizes in bytes. An object array stores pointers; the item size of a string dtype
  depends on the dtype instance and is not modelled (no buffer is read or written at
  these types).
\<close>

fun itemsize :: "np_type \<Rightarrow> nat" where
  "itemsize np_float16 = 2"
| "itemsize np_float32 = 4"
| "itemsize np_float64 = 8"
| "itemsize np_int8 = 1"
| "itemsize np_int16 = 2"
| "itemsize np_int32 = 4"
| "itemsize np_int64 = 8"
| "itemsize np_uint8 = 1"
| "itemsize np_uint16 = 2"
| "itemsize np_uint32 = 4"
| "itemsize np_uint64 = 8"
| "itemsize np_bool = 1"
| "itemsize np_complex64 = 8"
| "itemsize np_complex128 = 16"
| "itemsize np_object = 8"
| "itemsize np_bytes = 0"
| "itemsize np_str = 0"

fun scalar_tobytes :: "scalar \<Rightarrow> bytes" where
  "scalar_tobytes (F16 w) = le_bytes 2 w"
| "scalar_tobytes (F32 w) = le_bytes 4 w"
| "scalar_tobytes (F64 w) = le_bytes 8 w"
| "scalar_tobytes (I8 w) = le_bytes 1 w"
| "scalar_tobytes (I16 w) = le_bytes 2 w"
| "scalar_tobytes (I32 w) = le_bytes 4 w"
| "scalar_tobytes (I64 w) = le_bytes 8 w"
| "scalar_tobytes (U8 w) = le_bytes 1 w"
| "scalar_tobytes (U16 w) = le_bytes 2 w"
| "scalar_tobytes (U32 w) = le_bytes 4 w"
| "scalar_tobytes (U64 w) = le_bytes 8 w"
| "scalar_tobytes (Bool b) = [b]"
| "scalar_tobytes (C64 re im) = le_bytes 4 re @ le_bytes 4 im"
| "scalar_tobytes (C128 re im) = le_bytes 8 re @ le_bytes 8 im"
| "scalar_tobytes (Obj _) = []"
| "scalar_tobytes (Bytes _) = []"
| "scalar_tobytes (Str _) = []"

text \<open>The bytes of an element in the opposite order: every number has its bytes reversed.\<close>

fun scalar_tobytes_swapped :: "scalar \<Rightarrow> bytes" where
  "scalar_tobytes_swapped (C64 re im) = rev (le_bytes 4 re) @ rev (le_bytes 4 im)"
| "scalar_tobytes_swapped (C128 re im) = rev (le_bytes 8 re) @ rev (le_bytes 8 im)"
| "scalar_tobytes_swapped s = rev (scalar_tobytes s)"

fun scalar_frombytes :: "np_type \<Rightarrow> bytes \<Rightarrow> scalar" where
  "scalar_frombytes np_float16 bs = F16 (le_word bs)"
| "scalar_frombytes np_float32 bs = F32 (le_word bs)"
| "scalar_frombytes np_float64 bs = F64 (le_word bs)"
| "scalar_frombytes np_int8 bs = I8 (le_word bs)"
| "scalar_frombytes np_int16 bs = I16 (le_word bs)"
| "scalar_frombytes np_int32 bs = I32 (le_word bs)"
| "scalar_frombytes np_int64 bs = I64 (le_word bs)"
| "scalar_frombytes np_uint8 bs = U8 (le_word bs)"
| "scalar_frombytes np_uint16 bs = U16 (le_word bs)"
| "scalar_frombytes np_uint32 bs = U32 (le_word bs)"
| "scalar_frombytes np_uint64 bs = U64 (le_word bs)"
| "scalar_frombytes np_bool bs = Bool (le_word bs)"
| "scalar_frombytes np_complex64 bs = C64 (le_word (take 4 bs)) (le_word (drop 4 bs))"
| "scalar_frombytes np_complex128 bs = C128 (le_word (take 8 bs)) (le_word (drop 8 bs))"
| "scalar_frombytes np_object bs = Obj (PyBytes bs)"
| "scalar_frombytes np_bytes bs = Bytes bs"
| "scalar_frombytes np_str bs = Str (map unat bs)"

definition chunks :: "nat \<Rightarrow> 'a list \<Rightarrow> 'a list list" where
  "chunks k xs = map (\<lambda>i. take k (drop (i * k) xs)) [0..<length xs div k]"

subsection \<open>The numpy calls of the module\<close>

text \<open>
  \<^verbatim>\<open>a.tobytes()\<close>: the elements in row-major order, each at its item size and in the
  byte order of the array.
\<close>

definition tobytes :: "ndarray \<Rightarrow> bytes" where
  "tobytes a =
     concat (map (if byteorder a = Native then scalar_tobytes else scalar_tobytes_swapped)
               (data a))"

text \<open>
  \<^verbatim>\<open>np.frombuffer(buf, dtype=d)\<close>: a one-dimensional array over the buffer. numpy refuses
  the object dtype and a buffer whose length is no multiple of the item size.
\<close>

definition np_frombuffer :: "bytes \<Rightarrow> np_type \<Rightarrow> error + ndarray" where
  "np_frombuffer buf d =
     (if d = np_object then Inl (ValueError Object_array_from_buffer)
      else if itemsize d = 0 then Inl (ValueError Itemsize_zero)
      else if length buf mod itemsize d \<noteq> 0 then Inl (ValueError Buffer_size_not_multiple)
      else Inr \<lparr>byteorder = Native, dtype = d, shape = [int (length buf div itemsize d)],
                data = map (scalar_frombytes d) (chunks (itemsize d) buf)\<rparr>)"

text \<open>
  \<^verbatim>\<open>a.reshape(newshape)\<close>: the elements stay in row-major order. Every negative entry
  of \<^verbatim>\<open>newshape\<close> is an unknown dimension; numpy accepts one and infers it from the
  size, and refuses a shape whose product is not the size.
\<close>

definition np_reshape :: "ndarray \<Rightarrow> int list \<Rightarrow> error + ndarray" where
  "np_reshape a newshape =
     (let s_original = int (length (data a));
          s_known = prod_list (filter (\<lambda>d. 0 \<le> d) newshape)
      in if 1 < length (filter (\<lambda>d. d < 0) newshape) then Inl (ValueError Cannot_reshape)
         else if list_all (\<lambda>d. 0 \<le> d) newshape then
           (if s_original = s_known then Inr (a\<lparr>shape := newshape\<rparr>)
            else Inl (ValueError Cannot_reshape))
         else if s_known = 0 \<or> s_original mod s_known \<noteq> 0 then Inl (ValueError Cannot_reshape)
         else Inr (a\<lparr>shape := map (\<lambda>d. if d < 0 then s_original div s_known else d) newshape\<rparr>))"

fun zero_scalar :: "np_type \<Rightarrow> scalar" where
  "zero_scalar np_float16 = F16 0"
| "zero_scalar np_float32 = F32 0"
| "zero_scalar np_float64 = F64 0"
| "zero_scalar np_int8 = I8 0"
| "zero_scalar np_int16 = I16 0"
| "zero_scalar np_int32 = I32 0"
| "zero_scalar np_int64 = I64 0"
| "zero_scalar np_uint8 = U8 0"
| "zero_scalar np_uint16 = U16 0"
| "zero_scalar np_uint32 = U32 0"
| "zero_scalar np_uint64 = U64 0"
| "zero_scalar np_bool = Bool 0"
| "zero_scalar np_complex64 = C64 0 0"
| "zero_scalar np_complex128 = C128 0 0"
| "zero_scalar np_object = Obj (PyInt 0)"
| "zero_scalar np_bytes = Bytes []"
| "zero_scalar np_str = Str []"

text \<open>\<^verbatim>\<open>np.zeros(shape, d)\<close>; a negative dimension is refused. Memory limits are not modelled.\<close>

definition np_zeros :: "int list \<Rightarrow> np_type \<Rightarrow> error + ndarray" where
  "np_zeros sh d =
     (if list_all (\<lambda>n. 0 \<le> n) sh
      then Inr \<lparr>byteorder = Native, dtype = d, shape = sh,
                data = replicate (nat (prod_list sh)) (zero_scalar d)\<rparr>
      else Inl (ValueError Negative_dimensions))"

text \<open>\<^verbatim>\<open>np.prod(shape, dtype=np.int64)\<close>: the product wraps around at 64 bits.\<close>

definition np_prod_int64 :: "int list \<Rightarrow> int" where
  "np_prod_int64 sh = sint (word_of_int (prod_list sh) :: 64 word)"

text \<open>
  \<^verbatim>\<open>np.pad(values, (0, k), "edge")\<close> on a one-dimensional array: \<open>k\<close> copies of the last
  element are appended. A negative width is refused (\<^verbatim>\<open>index can't contain negative
  values\<close>), and so is extending an empty array.
\<close>

definition np_pad_edge :: "ndarray \<Rightarrow> int \<Rightarrow> error + ndarray" where
  "np_pad_edge values k =
     (if k < 0 then Inl (ValueError Negative_pad_width)
      else if data values = [] then
        (if k = 0 then Inr values else Inl (ValueError Cannot_pad_empty))
      else Inr (values\<lparr>shape := [int (length (data values)) + k],
                       data := data values @ replicate (nat k) (last (data values))\<rparr>))"

subsection \<open>The tensor message\<close>

text \<open>
  Modelled from the spec: the generated module \<^verbatim>\<open>tensor_pb2\<close> with the message
  \<^verbatim>\<open>TensorProto\<close> is not among the sources. The record has the fields of the message
  that \<^verbatim>\<open>utils.py\<close> reads or writes: the type code, the shape, the raw bytes and one
  value list per type family.
  \<^verbatim>\<open>tensor_shape\<close> is the list of the \<^verbatim>\<open>dim[i].size\<close> (64-bit signed in the message).
  \<^verbatim>\<open>float_val\<close> holds 32-bit and \<^verbatim>\<open>double_val\<close> 64-bit floats (as bit patterns),
  \<^verbatim>\<open>int_val\<close> 32-bit signed integers. A field that is not set is empty.
\<close>

record TensorProto =
  tensor_dtype :: DataType
  tensor_shape :: "int list"
  tensor_content :: bytes
  float_val :: "32 word list"
  double_val :: "64 word list"
  int_val :: "32 word list"
  bool_val :: "bool list"
  string_val :: "bytes list"

subsection \<open>Decoding\<close>

text \<open>\<^verbatim>\<open>np.fromiter(xs, dtype=d)\<close> and \<^verbatim>\<open>np.array(xs, dtype=d)\<close> on a flat sequence.\<close>

definition array1d :: "np_type \<Rightarrow> scalar list \<Rightarrow> ndarray" where
  "array1d d xs = \<lparr>byteorder = Native, dtype = d, shape = [int (length xs)], data = xs\<rparr>"

text \<open>A 32-bit integer of \<^verbatim>\<open>int_val\<close> stored at the element type of the array.\<close>

definition int_scalar :: "np_type \<Rightarrow> 32 word \<Rightarrow> scalar" where
  "int_scalar d w = (if d = np_int64 then I64 (scast w) else I32 w)"

definition bool_scalar :: "bool \<Rightarrow> scalar" where
  "bool_scalar b = Bool (if b then 1 else 0)"

text \<open>
  The \<^verbatim>\<open>if\<close>/\<^verbatim>\<open>elif\<close> chain of \<^verbatim>\<open>make_ndarray_from_tensor\<close> that builds
  \<^verbatim>\<open>values\<close> from the typed value list of the tensor's type.
\<close>

definition typed_values :: "TensorProto \<Rightarrow> np_type \<Rightarrow> error + ndarray" where
  "typed_values tensor np_dt =
     (if tensor_dtype tensor = DT_FLOAT then Inr (array1d np_dt (map F32 (float_val tensor)))
      else if tensor_dtype tensor = DT_DOUBLE then
        Inr (array1d np_dt (map F64 (double_val tensor)))
      else if tensor_dtype tensor = DT_INT32 \<or> tensor_dtype tensor = DT_INT64 then
        Inr (array1d np_dt (map (int_scalar np_dt) (int_val tensor)))
      else if tensor_dtype tensor = DT_BOOL then
        Inr (array1d np_dt (map bool_scalar (bool_val tensor)))
      else if tensor_dtype tensor = DT_STRING then
        Inr (array1d np_dt (map (\<lambda>b. Obj (PyBytes b)) (string_val tensor)))
      else Inl (TypeError (Unsupported_tensor_type (tensor_dtype tensor))))"

text \<open>
  The dispatch read as a table: the typed value list that belongs to a tensor type, with
  its elements as the array of the registry's element type stores them. The 32-bit and
  the 64-bit integer types share \<^verbatim>\<open>int_val\<close>; a type without a list has \<open>None\<close>.
\<close>

definition selected_list :: "TensorProto \<Rightarrow> scalar list option" where
  "selected_list tensor =
     (case tensor_dtype tensor of
        DT_FLOAT \<Rightarrow> Some (map F32 (float_val tensor))
      | DT_DOUBLE \<Rightarrow> Some (map F64 (double_val tensor))
      | DT_INT32 \<Rightarrow> Some (map I32 (int_val tensor))
      | DT_INT64 \<Rightarrow> Some (map (\<lambda>w. I64 (scast w)) (int_val tensor))
      | DT_BOOL \<Rightarrow> Some (map bool_scalar (bool_val tensor))
      | DT_STRING \<Rightarrow> Some (map (\<lambda>b. Obj (PyBytes b)) (string_val tensor))
      | _ \<Rightarrow> None)"

text \<open>
  \<^verbatim>\<open>make_ndarray_from_tensor\<close>. \<^verbatim>\<open>.copy()\<close> gives the result its own buffer; with
  arrays as values it is the identity.
\<close>

definition make_ndarray_from_tensor :: "TensorProto \<Rightarrow> error + ndarray" where
  "make_ndarray_from_tensor tensor =
     (let sh = tensor_shape tensor in
      case get_np_dtype (tensor_dtype tensor) of
        Inl e \<Rightarrow> Inl e
      | Inr np_dt \<Rightarrow>
          if tensor_content tensor \<noteq> [] then
            (case np_frombuffer (tensor_content tensor) np_dt of
               Inl e \<Rightarrow> Inl e
             | Inr a \<Rightarrow> np_reshape a sh)
          else
            (case typed_values tensor np_dt of
               Inl e \<Rightarrow> Inl e
             | Inr values \<Rightarrow>
                 if size_nd values = 0 then np_zeros sh np_dt
                 else
                   (let num_elements = np_prod_int64 sh in
                    case (if int (size_nd values) \<noteq> num_elements
                          then np_pad_edge values (num_elements - int (size_nd values))
                          else Inr values) of
                      Inl e \<Rightarrow> Inl e
                    | Inr padded \<Rightarrow> np_reshape padded sh)))"

subsection \<open>Encoding\<close>

text \<open>
  \<^verbatim>\<open>a.astype(np.float32)\<close> on a 64-bit float array; the result is in the byte order of
  the machine. The rounding of a double to a
  single is numpy's, not the module's: it is the parameter \<open>f64_to_f32\<close> on bit patterns.
\<close>

definition astype_float32 :: "(64 word \<Rightarrow> 32 word) \<Rightarrow> ndarray \<Rightarrow> ndarray" where
  "astype_float32 f64_to_f32 a =
     a\<lparr>byteorder := Native, dtype := np_float32,
       data := map (\<lambda>s. case s of F64 w \<Rightarrow> F32 (f64_to_f32 w) | _ \<Rightarrow> s) (data a)\<rparr>"

text \<open>\<^verbatim>\<open>a.astype(np.int32)\<close> on a 64-bit integer array keeps the low 32 bits.\<close>

definition astype_int32 :: "ndarray \<Rightarrow> ndarray" where
  "astype_int32 a =
     a\<lparr>byteorder := Native, dtype := np_int32,
       data := map (\<lambda>s. case s of I64 w \<Rightarrow> I32 (ucast w) | _ \<Rightarrow> s) (data a)\<rparr>"

text \<open>The value of an integer element.\<close>

fun int_value :: "scalar \<Rightarrow> int option" where
  "int_value (I8 w) = Some (sint w)"
| "int_value (I16 w) = Some (sint w)"
| "int_value (I32 w) = Some (sint w)"
| "int_value (I64 w) = Some (sint w)"
| "int_value (U8 w) = Some (uint w)"
| "int_value (U16 w) = Some (uint w)"
| "int_value (U32 w) = Some (uint w)"
| "int_value (U64 w) = Some (uint w)"
| "int_value _ = None"

definition scalar_eq :: "scalar \<Rightarrow> scalar \<Rightarrow> bool" where
  "scalar_eq s t =
     (case (int_value s, int_value t) of
        (Some x, Some y) \<Rightarrow> x = y
      | _ \<Rightarrow> s = t)"

text \<open>\<^verbatim>\<open>np.array_equal(a, b)\<close>: the same shape and equal elements.\<close>

definition array_equal :: "ndarray \<Rightarrow> ndarray \<Rightarrow> bool" where
  "array_equal a b \<longleftrightarrow> shape a = shape b \<and> list_all2 scalar_eq (data a) (data b)"

text \<open>
  What a Python \<^verbatim>\<open>for\<close> loop sees. Iterating an array of one dimension gives its
  elements as numpy scalars, of more dimensions its sub-arrays along the first axis, of
  none a \<^verbatim>\<open>TypeError\<close>. A \<^verbatim>\<open>np.bytes_\<close> iterates as \<^verbatim>\<open>bytes\<close> (integers), a
  \<^verbatim>\<open>np.str_\<close> as \<^verbatim>\<open>str\<close> (one-character strings).
\<close>

datatype pyval = PyArray ndarray | PyScalar scalar | PyByte byte | PyChar nat

definition rows :: "nat \<Rightarrow> nat \<Rightarrow> 'a list \<Rightarrow> 'a list list" where
  "rows n k xs = map (\<lambda>i. take k (drop (i * k) xs)) [0..<n]"

fun py_iter :: "pyval \<Rightarrow> error + pyval list" where
  "py_iter (PyArray a) =
     (case shape a of
        [] \<Rightarrow> Inl (TypeError Iteration_over_0d_array)
      | n # rest \<Rightarrow>
          if rest = [] then Inr (map PyScalar (data a))
          else Inr (map (\<lambda>c. PyArray \<lparr>byteorder = byteorder a, dtype = dtype a, shape = rest,
                                    data = c\<rparr>)
                      (rows (nat n) (nat (prod_list rest)) (data a))))"
| "py_iter (PyScalar (Bytes b)) = Inr (map PyByte b)"
| "py_iter (PyScalar (Str s)) = Inr (map PyChar s)"
| "py_iter (PyScalar _) = Inl (TypeError Not_iterable)"
| "py_iter (PyByte _) = Inl (TypeError Not_iterable)"
| "py_iter (PyChar c) = Inr [PyChar c]"

text \<open>
  The inner loop of the string branch: \<^verbatim>\<open>isinstance(s, bytes)\<close> holds for a
  \<^verbatim>\<open>np.bytes_\<close> and for nothing else that the iteration yields.
\<close>

fun isinstance_bytes :: "pyval \<Rightarrow> bool" where
  "isinstance_bytes (PyScalar (Bytes _)) = True"
| "isinstance_bytes _ = False"

fun bytes_value :: "pyval \<Rightarrow> bytes" where
  "bytes_value (PyScalar (Bytes b)) = b"
| "bytes_value _ = []"

fun append_bytes :: "pyval list \<Rightarrow> bytes list \<Rightarrow> error + bytes list" where
  "append_bytes [] acc = Inr acc"
| "append_bytes (s # ss) acc =
     (if \<not> isinstance_bytes s then Inl (TypeError Expect_list_of_bytes)
      else append_bytes ss (acc @ [bytes_value s]))"

fun append_vectors :: "pyval list \<Rightarrow> bytes list \<Rightarrow> error + bytes list" where
  "append_vectors [] acc = Inr acc"
| "append_vectors (vector # vs) acc =
     (case py_iter vector of
        Inl e \<Rightarrow> Inl e
      | Inr ss \<Rightarrow>
          (case append_bytes ss acc of
             Inl e \<Rightarrow> Inl e
           | Inr acc' \<Rightarrow> append_vectors vs acc'))"

definition collect_string_val :: "ndarray \<Rightarrow> error + bytes list" where
  "collect_string_val np_array =
     (case py_iter (PyArray np_array) of
        Inl e \<Rightarrow> Inl e
      | Inr vectors \<Rightarrow> append_vectors vectors [])"

text \<open>
  \<^verbatim>\<open>a.dtype == t\<close> for a numpy scalar type \<open>t\<close>: \<open>t\<close> stands for its dtype in the
  byte order of the machine, and two dtypes of different byte order are not equal.
\<close>

definition dtype_eq :: "ndarray \<Rightarrow> np_type \<Rightarrow> bool" where
  "dtype_eq a t \<longleftrightarrow> dtype a = t \<and> byteorder a = Native"

text \<open>The precision preference of \<^verbatim>\<open>make_tensor_proto\<close>.\<close>

definition downcast :: "(64 word \<Rightarrow> 32 word) \<Rightarrow> ndarray \<Rightarrow> ndarray" where
  "downcast f64_to_f32 np_array =
     (if dtype_eq np_array np_float64 then astype_float32 f64_to_f32 np_array
      else if dtype_eq np_array np_int64 then
        (let downcasted_array = astype_int32 np_array
         in if array_equal downcasted_array np_array then downcasted_array else np_array)
      else np_array)"

text \<open>
  \<^verbatim>\<open>make_tensor_proto\<close>, on the array that \<^verbatim>\<open>np.asarray(values)\<close> builds (the inference
  of an array from nested Python lists is numpy's).
\<close>

definition make_tensor_proto :: "(64 word \<Rightarrow> 32 word) \<Rightarrow> ndarray \<Rightarrow> error + TensorProto" where
  "make_tensor_proto f64_to_f32 values =
     (let np_array = downcast f64_to_f32 values in
      case get_tf_type (dtype np_array) of
        Inl e \<Rightarrow> Inl e
      | Inr dt \<Rightarrow>
          if dt = DT_STRING then
            (case collect_string_val np_array of
               Inl e \<Rightarrow> Inl e
             | Inr sv \<Rightarrow>
                 Inr \<lparr>tensor_dtype = dt, tensor_shape = shape np_array, tensor_content = [],
                      float_val = [], double_val = [], int_val = [], bool_val = [],
                      string_val = sv\<rparr>)
          else
            Inr \<lparr>tensor_dtype = dt, tensor_shape = shape np_array,
                 tensor_content = tobytes np_array,
                 float_val = [], double_val = [], int_val = [], bool_val = [],
                 string_val = []\<rparr>)"

subsection \<open>Sample assembly\<close>

text \<open>
  The sample matrix, row-major. \<^verbatim>\<open>np.empty\<close> leaves the cells unset: a cell is \<open>None\<close>
  until a column assignment writes it.
\<close>

record matrix =
  mat_dtype :: np_type
  nrows :: nat
  ncols :: nat
  cells :: "scalar option list"

text \<open>\<^verbatim>\<open>np.empty((r, c), d)\<close>; without an element type numpy takes 64-bit float.\<close>

definition np_empty :: "int \<Rightarrow> int \<Rightarrow> np_type option \<Rightarrow> error + matrix" where
  "np_empty r c d =
     (if r < 0 \<or> c < 0 then Inl (ValueError Negative_dimensions)
      else Inr \<lparr>mat_dtype = (case d of None \<Rightarrow> np_float64 | Some t \<Rightarrow> t),
                nrows = nat r, ncols = nat c,
                cells = replicate (nat r * nat c) None\<rparr>)"

fun cast_all :: "(scalar \<Rightarrow> error + scalar) \<Rightarrow> scalar list \<Rightarrow> error + scalar list" where
  "cast_all f [] = Inr []"
| "cast_all f (x # xs) =
     (case f x of
        Inl e \<Rightarrow> Inl e
      | Inr y \<Rightarrow> (case cast_all f xs of Inl e \<Rightarrow> Inl e | Inr ys \<Rightarrow> Inr (y # ys)))"

fun write_column :: "nat \<Rightarrow> nat \<Rightarrow> nat \<Rightarrow> scalar list \<Rightarrow> scalar option list \<Rightarrow> scalar option list"
  where
  "write_column nc j i [] cs = cs"
| "write_column nc j i (v # vs) cs = write_column nc j (Suc i) vs (cs[i * nc + j := Some v])"

text \<open>
  \<^verbatim>\<open>samples[:, j] = v\<close> for a one-dimensional \<open>v\<close>: an index outside the columns is an
  \<^verbatim>\<open>IndexError\<close>; \<open>v\<close> has one element per row, or one element that is broadcast;
  every element is converted to the element type of the matrix. That conversion is
  numpy's and is the parameter \<open>cast\<close>.
\<close>

definition set_column ::
  "(np_type \<Rightarrow> scalar \<Rightarrow> error + scalar) \<Rightarrow> matrix \<Rightarrow> nat \<Rightarrow> ndarray \<Rightarrow> error + matrix"
  where
  "set_column cast m j v =
     (if ncols m \<le> j then Inl IndexError
      else if length (data v) \<noteq> nrows m \<and> length (data v) \<noteq> 1
      then Inl (ValueError Could_not_broadcast)
      else
        (case cast_all (cast (mat_dtype m)) (data v) of
           Inl e \<Rightarrow> Inl e
         | Inr vs \<Rightarrow>
             Inr (m\<lparr>cells :=
                      write_column (ncols m) j 0
                        (if length vs = nrows m then vs else replicate (nrows m) (hd vs))
                        (cells m)\<rparr>)))"

definition column :: "matrix \<Rightarrow> nat \<Rightarrow> scalar option list" where
  "column m j = map (\<lambda>i. cells m ! (i * ncols m + j)) [0..<nrows m]"

type_synonym request = "string \<Rightarrow> TensorProto option"

text \<open>\<^verbatim>\<open>request_inputs[feature_name]\<close> and \<^verbatim>\<open>.tensor_shape.dim[0].size\<close>.\<close>

definition get_input :: "request \<Rightarrow> string \<Rightarrow> error + TensorProto" where
  "get_input request_inputs feature_name =
     (case request_inputs feature_name of None \<Rightarrow> Inl KeyError | Some t \<Rightarrow> Inr t)"

definition dim0_size :: "TensorProto \<Rightarrow> error + int" where
  "dim0_size t = (case tensor_shape t of [] \<Rightarrow> Inl IndexError | n # _ \<Rightarrow> Inr n)"

definition check_request_feature_exists :: "request \<Rightarrow> string \<Rightarrow> error + unit" where
  "check_request_feature_exists request_inputs feature_name =
     (if request_inputs feature_name = None
      then Inl (PythieServingException (feature_name @ '' not set in the predict request.''))
      else Inr ())"

definition check_request_valid_length :: "request \<Rightarrow> string \<Rightarrow> int \<Rightarrow> error + unit" where
  "check_request_valid_length request_inputs feature_name nb_samples =
     (case get_input request_inputs feature_name of
        Inl e \<Rightarrow> Inl e
      | Inr t \<Rightarrow>
          (case dim0_size t of
             Inl e \<Rightarrow> Inl e
           | Inr n \<Rightarrow>
               if n \<noteq> nb_samples
               then Inl (PythieServingException (feature_name @ '' has invalid length.''))
               else Inr ()))"

definition check_array_shape :: "ndarray \<Rightarrow> error + unit" where
  "check_array_shape nd_array =
     (if length (shape nd_array) \<noteq> 2 \<or> shape nd_array ! 1 \<noteq> 1
      then Inl (PythieServingException ''All input vectors should be 1D tensor'')
      else Inr ())"

text \<open>The first loop of \<^verbatim>\<open>parse_sample\<close>.\<close>

fun check_all_exist :: "request \<Rightarrow> string list \<Rightarrow> error + unit" where
  "check_all_exist request_inputs [] = Inr ()"
| "check_all_exist request_inputs (feature_name # names) =
     (case check_request_feature_exists request_inputs feature_name of
        Inl e \<Rightarrow> Inl e
      | Inr _ \<Rightarrow> check_all_exist request_inputs names)"

text \<open>One pass of the second loop, and the loop from \<open>feature_index\<close> on.\<close>

definition fill_feature ::
  "(np_type \<Rightarrow> scalar \<Rightarrow> error + scalar) \<Rightarrow> request \<Rightarrow> int \<Rightarrow> nat \<Rightarrow> string \<Rightarrow> matrix
     \<Rightarrow> error + matrix"
  where
  "fill_feature cast request_inputs nb_samples feature_index feature_name samples =
     (case check_request_valid_length request_inputs feature_name nb_samples of
        Inl e \<Rightarrow> Inl e
      | Inr _ \<Rightarrow>
     (case get_input request_inputs feature_name of
        Inl e \<Rightarrow> Inl e
      | Inr t \<Rightarrow>
     (case make_ndarray_from_tensor t of
        Inl e \<Rightarrow> Inl e
      | Inr nd_array \<Rightarrow>
     (case check_array_shape nd_array of
        Inl e \<Rightarrow> Inl e
      | Inr _ \<Rightarrow>
     (case np_reshape nd_array [- 1] of
        Inl e \<Rightarrow> Inl e
      | Inr flat \<Rightarrow> set_column cast samples feature_index flat)))))"

fun fill_features ::
  "(np_type \<Rightarrow> scalar \<Rightarrow> error + scalar) \<Rightarrow> request \<Rightarrow> int \<Rightarrow> nat \<Rightarrow> string list \<Rightarrow> matrix
     \<Rightarrow> error + matrix"
  where
  "fill_features cast request_inputs nb_samples feature_index [] samples = Inr samples"
| "fill_features cast request_inputs nb_samples feature_index (feature_name # names) samples =
     (case fill_feature cast request_inputs nb_samples feature_index feature_name samples of
        Inl e \<Rightarrow> Inl e
      | Inr samples' \<Rightarrow>
          fill_features cast request_inputs nb_samples (Suc feature_index) names samples')"

definition parse_sample ::
  "(np_type \<Rightarrow> scalar \<Rightarrow> error + scalar) \<Rightarrow> request \<Rightarrow> string list \<Rightarrow> int \<Rightarrow> np_type option
     \<Rightarrow> error + matrix"
  where
  "parse_sample cast request_inputs features_names nb_features samples_dtype =
     (case check_all_exist request_inputs features_names of
        Inl e \<Rightarrow> Inl e
      | Inr _ \<Rightarrow>
     (case features_names of
        [] \<Rightarrow> Inl IndexError
      | first_name # _ \<Rightarrow>
     (case get_input request_inputs first_name of
        Inl e \<Rightarrow> Inl e
      | Inr t \<Rightarrow>
     (case dim0_size t of
        Inl e \<Rightarrow> Inl e
      | Inr nb_samples \<Rightarrow>
     (case np_empty nb_samples nb_features samples_dtype of
        Inl e \<Rightarrow> Inl e
      | Inr samples \<Rightarrow>
          fill_features cast request_inputs nb_samples 0 features_names samples)))))"

text \<open>
  For the statements about assembly: the flattened decoded array of a feature, an
  element as numpy stores it at an element type (\<open>None\<close> when the conversion
  raises), and a feature that passes every check of the second loop: present, with
  \<open>nb_samples\<close> as first declared dimension, decoding to shape \<open>[nb_samples, 1]\<close>,
  with elements that can be stored at the element type \<open>d\<close>.
\<close>

definition decoded_column :: "request \<Rightarrow> string \<Rightarrow> scalar list" where
  "decoded_column request_inputs feature_name =
     (case request_inputs feature_name of
        None \<Rightarrow> []
      | Some t \<Rightarrow> (case make_ndarray_from_tensor t of Inl e \<Rightarrow> [] | Inr nd_array \<Rightarrow> data nd_array))"

definition converted :: "(np_type \<Rightarrow> scalar \<Rightarrow> error + scalar) \<Rightarrow> np_type \<Rightarrow> scalar \<Rightarrow> scalar option" where
  "converted cast d s = (case cast d s of Inl e \<Rightarrow> None | Inr s' \<Rightarrow> Some s')"

definition column_feature ::
  "(np_type \<Rightarrow> scalar \<Rightarrow> error + scalar) \<Rightarrow> request \<Rightarrow> int \<Rightarrow> np_type \<Rightarrow> string \<Rightarrow> bool"
  where
  "column_feature cast request_inputs nb_samples d feature_name \<longleftrightarrow>
     (case request_inputs feature_name of
        None \<Rightarrow> False
      | Some t \<Rightarrow>
          dim0_size t = Inr nb_samples \<and>
          (case make_ndarray_from_tensor t of
             Inl e \<Rightarrow> False
           | Inr nd_array \<Rightarrow>
               shape nd_array = [nb_samples, 1] \<and>
               list_all (\<lambda>s. converted cast d s \<noteq> None) (data nd_array)))"

subsection \<open>Example inputs\<close>

text \<open>
  Tensors, arrays and requests on which the statements below are evaluated. For the two
  numpy conversions that are parameters of the model the examples take: the rounding of
  the doubles 1.0, 2.0 and 3.0 to singles (and 0 for any other double), and the
  conversion that stores an element that already has the element type of the matrix and
  refuses any other.
\<close>

definition t_short :: TensorProto where
  "t_short = \<lparr>tensor_dtype = DT_INT32, tensor_shape = [2, 2], tensor_content = [],
      float_val = [], double_val = [], int_val = [1, 2, 3], bool_val = [], string_val = []\<rparr>"

definition t_empty :: TensorProto where
  "t_empty = \<lparr>tensor_dtype = DT_STRING, tensor_shape = [2, 1], tensor_content = [],
      float_val = [], double_val = [], int_val = [], bool_val = [], string_val = []\<rparr>"

definition t_long :: TensorProto where
  "t_long = \<lparr>tensor_dtype = DT_FLOAT, tensor_shape = [2, 1], tensor_content = [],
      float_val = [1, 2, 3], double_val = [], int_val = [], bool_val = [], string_val = []\<rparr>"

definition t_raw :: TensorProto where
  "t_raw = \<lparr>tensor_dtype = DT_INT16, tensor_shape = [2, 1], tensor_content = [1, 0, 255, 255],
      float_val = [], double_val = [], int_val = [7, 7, 7], bool_val = [], string_val = []\<rparr>"

definition t_int64 :: TensorProto where
  "t_int64 = \<lparr>tensor_dtype = DT_INT64, tensor_shape = [2], tensor_content = [],
      float_val = [1], double_val = [], int_val = [- 1, 5], bool_val = [], string_val = []\<rparr>"

definition t_int8 :: TensorProto where
  "t_int8 = \<lparr>tensor_dtype = DT_INT8, tensor_shape = [2], tensor_content = [],
      float_val = [], double_val = [], int_val = [1, 2], bool_val = [], string_val = []\<rparr>"

definition t_other :: TensorProto where
  "t_other = \<lparr>tensor_dtype = DT_other 11, tensor_shape = [2], tensor_content = [],
      float_val = [], double_val = [], int_val = [1, 2], bool_val = [], string_val = []\<rparr>"

definition t_uint8 :: TensorProto where
  "t_uint8 = \<lparr>tensor_dtype = DT_UINT8, tensor_shape = [2], tensor_content = [],
      float_val = [], double_val = [], int_val = [1, 2], bool_val = [], string_val = []\<rparr>"

definition f64_to_f32_example :: "64 word \<Rightarrow> 32 word" where
  "f64_to_f32_example w =
     (if w = 0x3FF0000000000000 then 0x3F800000
      else if w = 0x4000000000000000 then 0x40000000
      else if w = 0x4008000000000000 then 0x40400000
      else 0)"


definition x_narrow :: ndarray where
  "x_narrow = \<lparr>byteorder = Native, dtype = np_int64, shape = [2, 1],
      data = [I64 1, I64 2]\<rparr>"


definition x_bytes_2d :: ndarray where
  "x_bytes_2d = \<lparr>byteorder = Native, dtype = np_bytes, shape = [2, 1],
      data = [Bytes [120], Bytes [121]]\<rparr>"

definition x_str_2d :: ndarray where
  "x_str_2d = \<lparr>byteorder = Native, dtype = np_str, shape = [2, 1],
      data = [Str [120], Str [121]]\<rparr>"

definition x_bytes_1d :: ndarray where
  "x_bytes_1d = \<lparr>byteorder = Native, dtype = np_bytes, shape = [2],
      data = [Bytes [120], Bytes [121]]\<rparr>"

definition x_swapped_i32 :: ndarray where
  "x_swapped_i32 = \<lparr>byteorder = Swapped, dtype = np_int32, shape = [1], data = [I32 1]\<rparr>"

definition t_swapped_i32 :: TensorProto where
  "t_swapped_i32 = \<lparr>tensor_dtype = DT_INT32, tensor_shape = [1], tensor_content = [0, 0, 0, 1],
      float_val = [], double_val = [], int_val = [], bool_val = [], string_val = []\<rparr>"



definition x_empty_u8 :: ndarray where
  "x_empty_u8 = \<lparr>byteorder = Native, dtype = np_uint8, shape = [0], data = []\<rparr>"

definition t_empty_u8 :: TensorProto where
  "t_empty_u8 = \<lparr>tensor_dtype = DT_UINT8, tensor_shape = [0], tensor_content = [],
      float_val = [], double_val = [], int_val = [], bool_val = [], string_val = []\<rparr>"

definition cast_same :: "np_type \<Rightarrow> scalar \<Rightarrow> error + scalar" where
  "cast_same d s = (if scalar_type s = d then Inr s else Inl (ValueError Could_not_broadcast))"

definition t_column :: "int list \<Rightarrow> 32 word list \<Rightarrow> TensorProto" where
  "t_column sh vals = \<lparr>tensor_dtype = DT_INT32, tensor_shape = sh, tensor_content = [],
      float_val = [], double_val = [], int_val = vals, bool_val = [], string_val = []\<rparr>"

definition request_ab :: request where
  "request_ab = [''a'' \<mapsto> t_column [5, 1] [1, 2, 3, 4, 5], ''b'' \<mapsto> t_column [5, 1] [6, 7, 8, 9, 10]]"

definition request_a :: request where
  "request_a = [''a'' \<mapsto> t_column [5, 1] [1, 2, 3, 4, 5]]"

definition request_short_b :: request where
  "request_short_b = [''a'' \<mapsto> t_column [5, 1] [1, 2, 3, 4, 5], ''b'' \<mapsto> t_column [4, 1] [6, 7, 8, 9]]"

definition request_wide_a :: request where
  "request_wide_a = [''a'' \<mapsto> t_column [5, 2] [1, 2, 3, 4, 5, 6, 7, 8, 9, 10],
      ''b'' \<mapsto> t_column [5, 1] [6, 7, 8, 9, 10]]"

definition request_wide_b :: request where
  "request_wide_b = [''b'' \<mapsto> t_column [5, 2] [1, 2, 3, 4, 5, 6, 7, 8, 9, 10]]"

definition samples_ab :: matrix where
  "samples_ab = \<lparr>mat_dtype = np_int32, nrows = 5, ncols = 2,
      cells = [Some (I32 1), Some (I32 6), Some (I32 2), Some (I32 7), Some (I32 3),
               Some (I32 8), Some (I32 4), Some (I32 9), Some (I32 5), Some (I32 10)]\<rparr>"

section \<open>Decoding: the typed value lists\<close>

lemma np_prod_int64_small:
  "0 \<le> prod_list sh \<Longrightarrow> prod_list sh < 2 ^ 63 \<Longrightarrow> np_prod_int64 sh = prod_list sh"
  unfolding np_prod_int64_def by (simp add: sint_sbintrunc' signed_take_bit_int_eq_self)

lemma np_prod_int64_upper: "np_prod_int64 sh < 2 ^ 63"
  unfolding np_prod_int64_def using sint_lt [of "word_of_int (prod_list sh) :: 64 word"] by simp

lemma prod_list_nonneg_dims: "list_all (\<lambda>d. 0 \<le> d) sh \<Longrightarrow> 0 \<le> (prod_list sh :: int)"
  by (induction sh) simp_all

lemma np_prod_int64_le:
  assumes "list_all (\<lambda>d. 0 \<le> d) sh"
  shows "np_prod_int64 sh \<le> prod_list sh"
proof (cases "prod_list sh < 2 ^ 63")
  case True
  then show ?thesis using np_prod_int64_small [OF prod_list_nonneg_dims [OF assms]] by simp
next
  case False
  then show ?thesis using np_prod_int64_upper [of sh] by linarith
qed

lemma np_reshape_nonneg:
  "list_all (\<lambda>d. 0 \<le> d) sh \<Longrightarrow> int (length (data a)) = prod_list sh
     \<Longrightarrow> np_reshape a sh = Inr (a\<lparr>shape := sh\<rparr>)"
  by (simp add: np_reshape_def Let_def list_all_iff filter_id_conv not_less filter_empty_conv)

lemma selected_list_registered:
  "selected_list t = Some vs \<Longrightarrow> \<exists>d. get_np_dtype (tensor_dtype t) = Inr d"
  by (cases "tensor_dtype t") (simp_all add: selected_list_def get_np_dtype_def TF_TO_NP_def)

lemma typed_values_selected:
  "get_np_dtype (tensor_dtype t) = Inr d \<Longrightarrow>
   typed_values t d =
     (case selected_list t of
        None \<Rightarrow> Inl (TypeError (Unsupported_tensor_type (tensor_dtype t)))
      | Some vs \<Rightarrow> Inr (array1d d vs))"
  by (cases "tensor_dtype t")
     (auto simp add: selected_list_def get_np_dtype_def TF_TO_NP_def typed_values_def
        int_scalar_def [abs_def])

lemma decode_no_content:
  assumes "tensor_content t = []"
    and "get_np_dtype (tensor_dtype t) = Inr d"
    and "selected_list t = Some vs"
  shows "make_ndarray_from_tensor t =
           (if vs = [] then np_zeros (tensor_shape t) d
            else case (if int (length vs) \<noteq> np_prod_int64 (tensor_shape t)
                       then np_pad_edge (array1d d vs)
                              (np_prod_int64 (tensor_shape t) - int (length vs))
                       else Inr (array1d d vs)) of
                   Inl e \<Rightarrow> Inl e
                 | Inr padded \<Rightarrow> np_reshape padded (tensor_shape t))"
  using assms typed_values_selected [OF assms(2)]
  by (simp add: make_ndarray_from_tensor_def size_nd_def Let_def array1d_def)

text \<open>
  C4. A tensor without raw bytes whose selected value list is not empty and shorter than
  the element count of its shape (a shape of non-negative sizes whose product fits in 64
  bits) decodes to the list followed by copies of its last value, up to the element
  count, at the declared shape.
\<close>

theorem decode_pads_short_list:
  assumes "tensor_content t = []"
    and "selected_list t = Some vs"
    and "vs \<noteq> []"
    and "list_all (\<lambda>n. 0 \<le> n) (tensor_shape t)"
    and "int (length vs) < prod_list (tensor_shape t)"
    and "prod_list (tensor_shape t) < 2 ^ 63"
  shows "\<exists>d. get_np_dtype (tensor_dtype t) = Inr d \<and>
           make_ndarray_from_tensor t =
             Inr \<lparr>byteorder = Native, dtype = d, shape = tensor_shape t,
                  data = vs @ replicate (nat (prod_list (tensor_shape t)) - length vs) (last vs)\<rparr>"
proof -
  let ?n = "prod_list (tensor_shape t)"
  let ?padded = "vs @ replicate (nat ?n - length vs) (last vs)"
  obtain d where d: "get_np_dtype (tensor_dtype t) = Inr d"
    using selected_list_registered [OF assms(2)] by blast
  have n: "np_prod_int64 (tensor_shape t) = ?n"
    using assms(4,6) by (simp add: np_prod_int64_small prod_list_nonneg_dims)
  have pad: "np_pad_edge (array1d d vs) (?n - int (length vs)) =
      Inr \<lparr>byteorder = Native, dtype = d, shape = [?n], data = ?padded\<rparr>"
    using assms(3,5) by (simp add: np_pad_edge_def array1d_def nat_diff_distrib')
  have len: "int (length (data \<lparr>byteorder = Native, dtype = d, shape = [?n], data = ?padded\<rparr>)) = ?n"
    using assms(5) by simp
  have "make_ndarray_from_tensor t = Inr \<lparr>byteorder = Native, dtype = d, shape = tensor_shape t, data = ?padded\<rparr>"
    using assms(3,5) n pad np_reshape_nonneg [OF assms(4) len]
    by (simp add: decode_no_content [OF assms(1) d assms(2)])
  with d show ?thesis by blast
qed

text \<open>The integer list \<open>[1, 2, 3]\<close> at shape \<open>[2, 2]\<close> decodes to \<open>[[1, 2], [3, 3]]\<close>.\<close>

theorem decode_pads_short_list_witness:
  "make_ndarray_from_tensor t_short =
     Inr \<lparr>byteorder = Native, dtype = np_int32, shape = [2, 2], data = [I32 1, I32 2, I32 3, I32 3]\<rparr>"
  using decode_pads_short_list [of t_short "[I32 1, I32 2, I32 3]"]
  by (simp add: t_short_def selected_list_def get_np_dtype_def TF_TO_NP_def)

text \<open>
  C5. A tensor without raw bytes whose selected value list is empty decodes, without an
  error, to the array of zeros of the declared shape and of the registry's element type.
\<close>

theorem decode_empty_list_zeros:
  assumes "tensor_content t = []"
    and "selected_list t = Some []"
    and "list_all (\<lambda>n. 0 \<le> n) (tensor_shape t)"
  shows "\<exists>d. get_np_dtype (tensor_dtype t) = Inr d \<and>
           make_ndarray_from_tensor t =
             Inr \<lparr>byteorder = Native, dtype = d, shape = tensor_shape t,
                  data = replicate (nat (prod_list (tensor_shape t))) (zero_scalar d)\<rparr>"
proof -
  obtain d where d: "get_np_dtype (tensor_dtype t) = Inr d"
    using selected_list_registered [OF assms(2)] by blast
  have "make_ndarray_from_tensor t =
      Inr \<lparr>byteorder = Native, dtype = d, shape = tensor_shape t,
           data = replicate (nat (prod_list (tensor_shape t))) (zero_scalar d)\<rparr>"
    using assms(3) by (simp add: decode_no_content [OF assms(1) d assms(2)] np_zeros_def)
  with d show ?thesis by blast
qed

theorem decode_empty_list_zeros_witness:
  "make_ndarray_from_tensor t_empty =
     Inr \<lparr>byteorder = Native, dtype = np_object, shape = [2, 1], data = [Obj (PyInt 0), Obj (PyInt 0)]\<rparr>"
  using decode_empty_list_zeros [of t_empty]
  by (simp add: t_empty_def selected_list_def get_np_dtype_def TF_TO_NP_def numeral_2_eq_2)

text \<open>
  C10. A tensor without raw bytes whose selected value list is longer than the element
  count of its shape does not decode: the pad step gets a negative width and raises.
\<close>

theorem decode_long_list_fails:
  assumes "tensor_content t = []"
    and "selected_list t = Some vs"
    and "list_all (\<lambda>n. 0 \<le> n) (tensor_shape t)"
    and "prod_list (tensor_shape t) < int (length vs)"
  shows "make_ndarray_from_tensor t = Inl (ValueError Negative_pad_width)"
proof -
  obtain d where d: "get_np_dtype (tensor_dtype t) = Inr d"
    using selected_list_registered [OF assms(2)] by blast
  have "np_prod_int64 (tensor_shape t) < int (length vs)"
    using np_prod_int64_le [OF assms(3)] assms(4) by linarith
  moreover have "vs \<noteq> []"
    using assms(3,4) prod_list_nonneg_dims [of "tensor_shape t"] by auto
  ultimately show ?thesis
    by (simp add: decode_no_content [OF assms(1) d assms(2)] np_pad_edge_def)
qed

theorem decode_long_list_fails_witness:
  "make_ndarray_from_tensor t_long = Inl (ValueError Negative_pad_width)"
  using decode_long_list_fails [of t_long "[F32 1, F32 2, F32 3]"]
  by (simp add: t_long_def selected_list_def)

section \<open>Element buffers\<close>

lemma length_le_bytes [simp]: "length (le_bytes n w) = n"
  by (induction n arbitrary: w) simp_all

lemma bit_le_word_le_bytes:
  "bit (le_word (le_bytes n w) :: 'a::len word) i \<longleftrightarrow> i < 8 * n \<and> bit (w :: 'a word) i"
proof (induction n arbitrary: w i)
  case 0
  then show ?case by simp
next
  case (Suc n)
  show ?case
    by (cases "i < 8")
       (auto simp add: bit_or_iff bit_word_ucast_iff bit_push_bit_iff Suc bit_drop_bit_eq
          dest: bit_imp_le_length)
qed

lemma le_word_le_bytes:
  "LENGTH('a) \<le> 8 * n \<Longrightarrow> le_word (le_bytes n w) = (w :: 'a::len word)"
  by (rule bit_word_eqI) (simp add: bit_le_word_le_bytes)

lemma le_bytes_cong:
  "(\<And>i. i < 8 * n \<Longrightarrow> bit w i = bit w' i)
     \<Longrightarrow> le_bytes n (w :: 'a::len word) = le_bytes n (w' :: 'a word)"
proof (induction n arbitrary: w w')
  case 0
  then show ?case by simp
next
  case (Suc n)
  have "(ucast w :: byte) = ucast w'"
    by (rule bit_word_eqI) (simp add: bit_word_ucast_iff Suc.prems)
  moreover have "le_bytes n (drop_bit 8 w) = le_bytes n (drop_bit 8 w')"
    by (rule Suc.IH) (simp add: bit_drop_bit_eq Suc.prems)
  ultimately show ?case by simp
qed

lemma le_bytes_le_word:
  "length bs = n \<Longrightarrow> 8 * n \<le> LENGTH('a) \<Longrightarrow> le_bytes n (le_word bs :: 'a::len word) = bs"
proof (induction bs arbitrary: n)
  case Nil
  then show ?case by simp
next
  case (Cons b bs)
  then obtain m where n: "n = Suc m" and m: "length bs = m" "8 * m \<le> LENGTH('a)"
    by (cases n) auto
  let ?x = "le_word bs :: 'a word"
  let ?w = "ucast b OR push_bit 8 ?x :: 'a word"
  have hd: "(ucast ?w :: byte) = b"
    using Cons.prems n
    by (intro bit_word_eqI) (auto simp add: bit_word_ucast_iff bit_or_iff bit_push_bit_iff)
  have "le_bytes m (drop_bit 8 ?w) = le_bytes m ?x"
  proof (rule le_bytes_cong)
    fix i assume "i < 8 * m"
    then show "bit (drop_bit 8 ?w) i = bit ?x i"
      using Cons.prems n
      by (auto simp add: bit_drop_bit_eq bit_or_iff bit_word_ucast_iff bit_push_bit_iff
            dest: bit_imp_le_length)
  qed
  then show ?case using hd n Cons.IH [OF m] by simp
qed

lemma rows_Suc: "rows (Suc n) k xs = take k xs # rows n k (drop k xs)"
proof -
  have "[0..<Suc n] = 0 # map Suc [0..<n]"
    by (simp add: upt_conv_Cons map_Suc_upt del: upt_Suc)
  then show ?thesis
    by (simp add: rows_def comp_def add.commute del: upt_Suc)
qed

lemma rows_0 [simp]: "rows 0 k xs = []"
  by (simp add: rows_def)

lemma length_rows [simp]: "length (rows n k xs) = n"
  by (simp add: rows_def)

lemma concat_rows: "length xs = n * k \<Longrightarrow> concat (rows n k xs) = xs"
  by (induction n arbitrary: xs) (simp_all add: rows_Suc)

lemma rows_lengths: "length xs = n * k \<Longrightarrow> c \<in> set (rows n k xs) \<Longrightarrow> length c = k"
proof (induction n arbitrary: xs)
  case 0
  then show ?case by simp
next
  case (Suc n)
  from Suc.prems(2) consider "c = take k xs" | "c \<in> set (rows n k (drop k xs))"
    by (auto simp add: rows_Suc)
  then show ?case
  proof cases
    case 1
    then show ?thesis using Suc.prems(1) by simp
  next
    case 2
    then show ?thesis using Suc.IH [of "drop k xs"] Suc.prems(1) by simp
  qed
qed

lemma rows_concat:
  "(\<And>x. x \<in> set xss \<Longrightarrow> length x = k) \<Longrightarrow> rows (length xss) k (concat xss) = xss"
  by (induction xss) (simp_all add: rows_Suc)

lemma chunks_rows: "chunks k xs = rows (length xs div k) k xs"
  by (simp add: chunks_def rows_def)

lemma div_mult_of_mod_0: "(a :: nat) mod k = 0 \<Longrightarrow> a = a div k * k"
  by (simp add: mod_0_imp_dvd)

lemma concat_chunks: "length xs mod k = 0 \<Longrightarrow> concat (chunks k xs) = xs"
  unfolding chunks_rows by (rule concat_rows) (rule div_mult_of_mod_0)

lemma chunks_lengths: "length xs mod k = 0 \<Longrightarrow> c \<in> set (chunks k xs) \<Longrightarrow> length c = k"
  unfolding chunks_rows by (rule rows_lengths [of xs "length xs div k"]) (simp_all add: mod_0_imp_dvd)

lemma length_concat_const:
  "(\<And>x. x \<in> set xss \<Longrightarrow> length x = k) \<Longrightarrow> length (concat xss) = length xss * k"
  by (induction xss) simp_all

lemma chunks_concat:
  assumes "0 < k" and "\<And>x. x \<in> set xss \<Longrightarrow> length x = k"
  shows "chunks k (concat xss) = xss"
  using assms by (simp add: chunks_rows length_concat_const rows_concat)

section \<open>Elements and their bytes\<close>

lemma registered_not_string:
  "get_np_dtype tt = Inr d \<Longrightarrow> tt \<noteq> DT_STRING \<Longrightarrow> d \<notin> {np_object, np_bytes, np_str}"
  by (cases tt) (auto simp add: get_np_dtype_def TF_TO_NP_def)

lemma registered_itemsize: "get_np_dtype tt = Inr d \<Longrightarrow> 0 < itemsize d"
  by (cases tt) (auto simp add: get_np_dtype_def TF_TO_NP_def)

lemma scalar_tobytes_frombytes:
  assumes "d \<notin> {np_object, np_bytes, np_str}" and "length bs = itemsize d"
  shows "scalar_tobytes (scalar_frombytes d bs) = bs"
proof (cases d)
  case np_bool
  then have "le_bytes 1 (le_word bs :: byte) = bs"
    using assms(2) by (intro le_bytes_le_word) simp_all
  then show ?thesis using np_bool by simp
next
  case np_int8
  then have "le_bytes 1 (le_word bs :: byte) = bs"
    using assms(2) by (intro le_bytes_le_word) simp_all
  then show ?thesis using np_int8 by simp
next
  case np_uint8
  then have "le_bytes 1 (le_word bs :: byte) = bs"
    using assms(2) by (intro le_bytes_le_word) simp_all
  then show ?thesis using np_uint8 by simp
next
  case np_complex64
  then have "le_bytes 4 (le_word (take 4 bs) :: 32 word) = take 4 bs"
    and "le_bytes 4 (le_word (drop 4 bs) :: 32 word) = drop 4 bs"
    using assms(2) by (simp_all add: le_bytes_le_word)
  then show ?thesis using np_complex64 by simp
next
  case np_complex128
  then have "le_bytes 8 (le_word (take 8 bs) :: 64 word) = take 8 bs"
    and "le_bytes 8 (le_word (drop 8 bs) :: 64 word) = drop 8 bs"
    using assms(2) by (simp_all add: le_bytes_le_word)
  then show ?thesis using np_complex128 by simp
qed (use assms in \<open>simp_all add: le_bytes_le_word\<close>)

lemma length_scalar_tobytes:
  "scalar_type s \<noteq> np_object \<Longrightarrow> length (scalar_tobytes s) = itemsize (scalar_type s)"
  by (cases s) simp_all

lemma scalar_frombytes_tobytes:
  assumes "scalar_type s \<notin> {np_object, np_bytes, np_str}"
  shows "scalar_frombytes (scalar_type s) (scalar_tobytes s) = s"
  by (cases s) (use assms in \<open>simp_all add: le_word_le_bytes\<close>)

section \<open>Decoding: raw bytes and dispatch\<close>

lemma np_frombuffer_ok:
  assumes "d \<notin> {np_object, np_bytes, np_str}" and "length buf mod itemsize d = 0"
  shows "np_frombuffer buf d =
           Inr \<lparr>byteorder = Native, dtype = d, shape = [int (length buf div itemsize d)],
                data = map (scalar_frombytes d) (chunks (itemsize d) buf)\<rparr>"
  using assms by (cases d) (simp_all add: np_frombuffer_def)

lemma tobytes_frombytes_chunks:
  assumes "d \<notin> {np_object, np_bytes, np_str}" and "length buf mod itemsize d = 0"
  shows "concat (map scalar_tobytes (map (scalar_frombytes d) (chunks (itemsize d) buf))) = buf"
proof -
  have "map scalar_tobytes (map (scalar_frombytes d) (chunks (itemsize d) buf)) =
        chunks (itemsize d) buf"
    using assms chunks_lengths [OF assms(2)]
    by (simp add: map_idI scalar_tobytes_frombytes)
  then show ?thesis using concat_chunks [OF assms(2)] by simp
qed

lemma decode_content:
  assumes "tensor_content t \<noteq> []" and "get_np_dtype (tensor_dtype t) = Inr d"
  shows "make_ndarray_from_tensor t =
           (case np_frombuffer (tensor_content t) d of
              Inl e \<Rightarrow> Inl e
            | Inr a \<Rightarrow> np_reshape a (tensor_shape t))"
  using assms by (simp add: make_ndarray_from_tensor_def)

lemma decode_ignores_lists:
  assumes "tensor_content t \<noteq> []"
  shows "make_ndarray_from_tensor
           (t\<lparr>float_val := fv, double_val := dv, int_val := iv, bool_val := bv,
              string_val := sv\<rparr>) = make_ndarray_from_tensor t"
  using assms by (simp add: make_ndarray_from_tensor_def Let_def split: sum.splits)

lemma decode_raw_bytes_wellformed:
  assumes "tensor_content t \<noteq> []"
    and "get_np_dtype (tensor_dtype t) = Inr d"
    and "tensor_dtype t \<noteq> DT_STRING"
    and "list_all (\<lambda>n. 0 \<le> n) (tensor_shape t)"
    and "int (length (tensor_content t)) = prod_list (tensor_shape t) * int (itemsize d)"
  shows "\<exists>a. make_ndarray_from_tensor t = Inr a \<and>
           byteorder a = Native \<and> dtype a = d \<and> shape a = tensor_shape t \<and>
           data a = map (scalar_frombytes d) (chunks (itemsize d) (tensor_content t)) \<and>
           int (length (data a)) = prod_list (tensor_shape t) \<and>
           tobytes a = tensor_content t"
proof -
  let ?buf = "tensor_content t" and ?k = "itemsize d" and ?n = "prod_list (tensor_shape t)"
  let ?a = "\<lparr>byteorder = Native, dtype = d, shape = [int (length ?buf div ?k)],
             data = map (scalar_frombytes d) (chunks ?k ?buf)\<rparr>"
  have num: "d \<notin> {np_object, np_bytes, np_str}"
    using registered_not_string [OF assms(2,3)] .
  have k: "0 < ?k" using registered_itemsize [OF assms(2)] .
  have n0: "0 \<le> ?n" using prod_list_nonneg_dims [OF assms(4)] .
  have len: "length ?buf = nat ?n * ?k"
    using assms(5) n0 by (metis nat_int nat_mult_distrib of_nat_0_le_iff)
  then have mod0: "length ?buf mod ?k = 0" by simp
  have cnt: "int (length (data ?a)) = ?n"
    using len k n0 by (simp add: chunks_def)
  have fb: "np_frombuffer ?buf d = Inr ?a"
    using np_frombuffer_ok [OF num mod0] .
  have rs: "np_reshape ?a (tensor_shape t) = Inr (?a\<lparr>shape := tensor_shape t\<rparr>)"
    using np_reshape_nonneg [OF assms(4) cnt] .
  let ?r = "?a\<lparr>shape := tensor_shape t\<rparr>"
  have dec: "make_ndarray_from_tensor t = Inr ?r"
    by (simp add: decode_content [OF assms(1,2)] fb rs)
  have tb: "tobytes ?r = ?buf"
    using tobytes_frombytes_chunks [OF num mod0] by (simp add: tobytes_def)
  show ?thesis
  proof (intro exI [of _ ?r] conjI)
    show "make_ndarray_from_tensor t = Inr ?r" by (rule dec)
    show "tobytes ?r = ?buf" by (rule tb)
    show "int (length (data ?r)) = ?n" using cnt by simp
  qed simp_all
qed

text \<open>
  C3. A tensor with a non-empty raw-bytes payload decodes to the same result whatever
  its typed value lists hold. When the payload is that of a tensor of a registered
  numeric type, that is, its length is the element count of the shape (non-negative
  sizes) times the item size, the result is the array of the registry's element type and
  of the declared shape whose elements are read from the buffer item by item, so that
  the array has the bytes of the buffer.
\<close>

theorem decode_raw_bytes:
  assumes "tensor_content t \<noteq> []"
  shows "(\<forall>fv dv iv bv sv.
            make_ndarray_from_tensor
              (t\<lparr>float_val := fv, double_val := dv, int_val := iv, bool_val := bv,
                 string_val := sv\<rparr>) = make_ndarray_from_tensor t) \<and>
         (get_np_dtype (tensor_dtype t) = Inr d \<and> tensor_dtype t \<noteq> DT_STRING \<and>
          list_all (\<lambda>n. 0 \<le> n) (tensor_shape t) \<and>
          int (length (tensor_content t)) = prod_list (tensor_shape t) * int (itemsize d) \<longrightarrow>
            (\<exists>a. make_ndarray_from_tensor t = Inr a \<and>
                 byteorder a = Native \<and> dtype a = d \<and> shape a = tensor_shape t \<and>
                 data a = map (scalar_frombytes d) (chunks (itemsize d) (tensor_content t)) \<and>
                 int (length (data a)) = prod_list (tensor_shape t) \<and>
                 tobytes a = tensor_content t))"
proof (intro conjI allI impI)
  show "make_ndarray_from_tensor
      (t\<lparr>float_val := fv, double_val := dv, int_val := iv, bool_val := bv, string_val := sv\<rparr>)
      = make_ndarray_from_tensor t" for fv dv iv bv sv
    using assms by (rule decode_ignores_lists)
next
  assume "get_np_dtype (tensor_dtype t) = Inr d \<and> tensor_dtype t \<noteq> DT_STRING \<and>
    list_all (\<lambda>n. 0 \<le> n) (tensor_shape t) \<and>
    int (length (tensor_content t)) = prod_list (tensor_shape t) * int (itemsize d)"
  then show "\<exists>a. make_ndarray_from_tensor t = Inr a \<and>
      byteorder a = Native \<and> dtype a = d \<and> shape a = tensor_shape t \<and>
      data a = map (scalar_frombytes d) (chunks (itemsize d) (tensor_content t)) \<and>
      int (length (data a)) = prod_list (tensor_shape t) \<and>
      tobytes a = tensor_content t"
    using assms by (elim conjE) (rule decode_raw_bytes_wellformed)
qed

text \<open>
  The four bytes \<open>01 00 ff ff\<close> at the 16-bit integer type and shape \<open>[2, 1]\<close> decode
  to \<open>[[1], [-1]]\<close>, with or without the integer list that the tensor also carries.
\<close>

theorem decode_raw_bytes_witness:
  "make_ndarray_from_tensor t_raw =
     Inr \<lparr>byteorder = Native, dtype = np_int16, shape = [2, 1], data = [I16 1, I16 (- 1)]\<rparr> \<and>
   make_ndarray_from_tensor
     (t_raw\<lparr>float_val := [], double_val := [], int_val := [], bool_val := [],
        string_val := []\<rparr>) = make_ndarray_from_tensor t_raw"
proof -
  have ne: "tensor_content t_raw \<noteq> []"
    by (simp add: t_raw_def)
  have c: "chunks 2 [1, 0, 255, 255 :: byte] = [[1, 0], [255, 255]]"
    by (simp add: chunks_def upt_rec)
  have h: "get_np_dtype (tensor_dtype t_raw) = Inr np_int16 \<and> tensor_dtype t_raw \<noteq> DT_STRING \<and>
      list_all (\<lambda>n. 0 \<le> n) (tensor_shape t_raw) \<and>
      int (length (tensor_content t_raw)) =
        prod_list (tensor_shape t_raw) * int (itemsize np_int16)"
    by (simp add: t_raw_def get_np_dtype_def TF_TO_NP_def)
  from decode_raw_bytes [OF ne, where d = np_int16, THEN conjunct2, THEN mp, OF h]
  obtain a where "make_ndarray_from_tensor t_raw = Inr a" and "byteorder a = Native"
    and "dtype a = np_int16" and "shape a = tensor_shape t_raw"
    and "data a = map (scalar_frombytes np_int16) (chunks (itemsize np_int16) (tensor_content t_raw))"
    by blast
  then have "make_ndarray_from_tensor t_raw =
      Inr \<lparr>byteorder = Native, dtype = np_int16, shape = [2, 1], data = [I16 1, I16 (- 1)]\<rparr>"
    using c by (simp add: t_raw_def ndarray.equality)
  moreover have "make_ndarray_from_tensor
      (t_raw\<lparr>float_val := [], double_val := [], int_val := [], bool_val := [],
         string_val := []\<rparr>) = make_ndarray_from_tensor t_raw"
    using decode_raw_bytes [OF ne, where d = np_int16, THEN conjunct1] by blast
  ultimately show ?thesis by (rule conjI)
qed

lemma decode_exact_list:
  assumes "tensor_content t = []"
    and "get_np_dtype (tensor_dtype t) = Inr d"
    and "selected_list t = Some vs"
    and "list_all (\<lambda>n. 0 \<le> n) (tensor_shape t)"
    and "int (length vs) = prod_list (tensor_shape t)"
    and "prod_list (tensor_shape t) < 2 ^ 63"
  shows "make_ndarray_from_tensor t =
           Inr \<lparr>byteorder = Native, dtype = d, shape = tensor_shape t, data = vs\<rparr>"
proof (cases "vs = []")
  case True
  then show ?thesis
    using assms(4,5) by (simp add: decode_no_content [OF assms(1-3)] np_zeros_def)
next
  case False
  have n: "np_prod_int64 (tensor_shape t) = prod_list (tensor_shape t)"
    using assms(4,6) by (simp add: np_prod_int64_small prod_list_nonneg_dims)
  have "np_reshape (array1d d vs) (tensor_shape t) =
      Inr ((array1d d vs)\<lparr>shape := tensor_shape t\<rparr>)"
    using assms(4,5) by (intro np_reshape_nonneg) (simp_all add: array1d_def)
  then show ?thesis
    using False n assms(5) by (simp add: decode_no_content [OF assms(1-3)] array1d_def)
qed

lemma decode_unregistered:
  assumes "\<forall>d. get_np_dtype (tensor_dtype t) \<noteq> Inr d"
  shows "make_ndarray_from_tensor t = Inl (UnknownLogicalType (tensor_dtype t))"
proof -
  have "get_np_dtype (tensor_dtype t) = Inl (TypeError (Could_not_infer_numpy_type (tensor_dtype t)))"
    using assms by (auto simp add: get_np_dtype_def split: option.splits)
  then show ?thesis
    by (simp add: make_ndarray_from_tensor_def UnknownLogicalType_def)
qed

text \<open>
  C6 (amended). For a tensor without raw bytes: a type code that the registry does not
  resolve fails with \<open>UnknownLogicalType\<close>. The types with a value list are float,
  double, the 32-bit and the 64-bit signed integer type, which share the integer list,
  boolean and byte string. Such a tensor is decoded from its list: zeros when the list
  is empty, and otherwise the list, edge-padded when its length is not the element
  count, at the declared shape; a list of exactly the element count of a shape of
  non-negative sizes comes back as it is at that shape. Every other registered type,
  the integer types of other widths among them, fails with \<open>UnsupportedEncoding\<close>.
\<close>

theorem decode_dispatch:
  assumes "tensor_content t = []"
  shows "((\<forall>d. get_np_dtype (tensor_dtype t) \<noteq> Inr d) \<longrightarrow>
            make_ndarray_from_tensor t = Inl (UnknownLogicalType (tensor_dtype t))) \<and>
         (selected_list t = None \<longleftrightarrow>
            tensor_dtype t \<notin> {DT_FLOAT, DT_DOUBLE, DT_INT32, DT_INT64, DT_BOOL, DT_STRING}) \<and>
         (get_np_dtype (tensor_dtype t) = Inr d \<and> selected_list t = None \<longrightarrow>
            make_ndarray_from_tensor t = Inl (UnsupportedEncoding (tensor_dtype t))) \<and>
         (get_np_dtype (tensor_dtype t) = Inr d \<and> selected_list t = Some vs \<longrightarrow>
            make_ndarray_from_tensor t =
              (if vs = [] then np_zeros (tensor_shape t) d
               else case (if int (length vs) \<noteq> np_prod_int64 (tensor_shape t)
                          then np_pad_edge
                                 \<lparr>byteorder = Native, dtype = d, shape = [int (length vs)],
                                  data = vs\<rparr>
                                 (np_prod_int64 (tensor_shape t) - int (length vs))
                          else Inr \<lparr>byteorder = Native, dtype = d, shape = [int (length vs)],
                                    data = vs\<rparr>) of
                      Inl e \<Rightarrow> Inl e
                    | Inr padded \<Rightarrow> np_reshape padded (tensor_shape t)) \<and>
            (list_all (\<lambda>n. 0 \<le> n) (tensor_shape t) \<and>
             int (length vs) = prod_list (tensor_shape t) \<and>
             prod_list (tensor_shape t) < 2 ^ 63 \<longrightarrow>
               make_ndarray_from_tensor t =
                 Inr \<lparr>byteorder = Native, dtype = d, shape = tensor_shape t, data = vs\<rparr>))"
proof (intro conjI impI)
  assume "\<forall>d. get_np_dtype (tensor_dtype t) \<noteq> Inr d"
  then show "make_ndarray_from_tensor t = Inl (UnknownLogicalType (tensor_dtype t))"
    by (rule decode_unregistered)
next
  show "selected_list t = None \<longleftrightarrow>
      tensor_dtype t \<notin> {DT_FLOAT, DT_DOUBLE, DT_INT32, DT_INT64, DT_BOOL, DT_STRING}"
    by (cases "tensor_dtype t") (simp_all add: selected_list_def)
next
  assume "get_np_dtype (tensor_dtype t) = Inr d \<and> selected_list t = None"
  then show "make_ndarray_from_tensor t = Inl (UnsupportedEncoding (tensor_dtype t))"
    using assms typed_values_selected [of t d]
    by (simp add: make_ndarray_from_tensor_def UnsupportedEncoding_def)
next
  assume h: "get_np_dtype (tensor_dtype t) = Inr d \<and> selected_list t = Some vs"
  then have d: "get_np_dtype (tensor_dtype t) = Inr d" and vs: "selected_list t = Some vs"
    by simp_all
  show "make_ndarray_from_tensor t =
      (if vs = [] then np_zeros (tensor_shape t) d
       else case (if int (length vs) \<noteq> np_prod_int64 (tensor_shape t)
                  then np_pad_edge
                         \<lparr>byteorder = Native, dtype = d, shape = [int (length vs)], data = vs\<rparr>
                         (np_prod_int64 (tensor_shape t) - int (length vs))
                  else Inr \<lparr>byteorder = Native, dtype = d, shape = [int (length vs)],
                            data = vs\<rparr>) of
              Inl e \<Rightarrow> Inl e
            | Inr padded \<Rightarrow> np_reshape padded (tensor_shape t))"
    using decode_no_content [OF assms d vs] by (simp add: array1d_def)
  assume "list_all (\<lambda>n. 0 \<le> n) (tensor_shape t) \<and>
    int (length vs) = prod_list (tensor_shape t) \<and> prod_list (tensor_shape t) < 2 ^ 63"
  then show "make_ndarray_from_tensor t =
      Inr \<lparr>byteorder = Native, dtype = d, shape = tensor_shape t, data = vs\<rparr>"
    by (elim conjE) (rule decode_exact_list [OF assms d vs])
qed

text \<open>
  The 64-bit integer tensor with the integer list \<open>[-1, 5]\<close> (and a stray float list)
  decodes to these two integers; an 8-bit unsigned tensor fails with
  \<open>UnsupportedEncoding\<close>, a tensor of the unregistered code 11 with
  \<open>UnknownLogicalType\<close>.
\<close>

theorem decode_dispatch_witness:
  "make_ndarray_from_tensor t_int64 =
     Inr \<lparr>byteorder = Native, dtype = np_int64, shape = [2], data = [I64 (- 1), I64 5]\<rparr> \<and>
   make_ndarray_from_tensor t_uint8 = Inl (UnsupportedEncoding DT_UINT8) \<and>
   make_ndarray_from_tensor t_other = Inl (UnknownLogicalType (DT_other 11))"
proof -
  have c0: "tensor_content t_int64 = []" "tensor_content t_uint8 = []"
    "tensor_content t_other = []"
    by (simp_all add: t_int64_def t_uint8_def t_other_def)
  have i: "get_np_dtype (tensor_dtype t_int64) = Inr np_int64 \<and>
      selected_list t_int64 = Some [I64 (- 1), I64 5]"
    by (simp add: t_int64_def get_np_dtype_def TF_TO_NP_def selected_list_def)
  have i': "list_all (\<lambda>n. 0 \<le> n) (tensor_shape t_int64) \<and>
      int (length [I64 (- 1), I64 5]) = prod_list (tensor_shape t_int64) \<and>
      prod_list (tensor_shape t_int64) < 2 ^ 63"
    by (simp add: t_int64_def)
  have u: "get_np_dtype (tensor_dtype t_uint8) = Inr np_uint8 \<and> selected_list t_uint8 = None"
    by (simp add: t_uint8_def get_np_dtype_def TF_TO_NP_def selected_list_def)
  have o: "\<forall>d. get_np_dtype (tensor_dtype t_other) \<noteq> Inr d"
    by (simp add: t_other_def get_np_dtype_def TF_TO_NP_def)
  have "make_ndarray_from_tensor t_int64 =
      Inr \<lparr>byteorder = Native, dtype = np_int64, shape = [2], data = [I64 (- 1), I64 5]\<rparr>"
    using decode_dispatch [OF c0(1), where d = np_int64 and vs = "[I64 (- 1), I64 5]",
        THEN conjunct2, THEN conjunct2, THEN conjunct2, THEN mp, OF i,
        THEN conjunct2, THEN mp, OF i']
    by (simp add: t_int64_def)
  moreover have "make_ndarray_from_tensor t_uint8 = Inl (UnsupportedEncoding DT_UINT8)"
    using decode_dispatch [OF c0(2), where d = np_uint8,
        THEN conjunct2, THEN conjunct2, THEN conjunct1, THEN mp, OF u]
    by (simp add: t_uint8_def)
  moreover have "make_ndarray_from_tensor t_other = Inl (UnknownLogicalType (DT_other 11))"
    using decode_dispatch [OF c0(3), THEN conjunct1, THEN mp, OF o]
    by (simp add: t_other_def)
  ultimately show ?thesis by (intro conjI)
qed

text \<open>
  The claim as stated fails. The 8-bit integer type is an integer type of another width,
  yet a tensor of that type with an integer list is not decoded from it: it fails with
  \<open>UnsupportedEncoding\<close>. And a tensor of the unregistered code 11 has no value list,
  yet does not fail with \<open>UnsupportedEncoding\<close>: the registry refuses it first, with
  \<open>UnknownLogicalType\<close>.
\<close>

theorem decode_dispatch_counterexample:
  "make_ndarray_from_tensor t_int8 = Inl (UnsupportedEncoding DT_INT8) \<and>
   make_ndarray_from_tensor t_other = Inl (UnknownLogicalType (DT_other 11)) \<and>
   UnknownLogicalType (DT_other 11) \<noteq> UnsupportedEncoding (DT_other 11)"
  by code_simp

section \<open>Encoding: the precision preference\<close>



lemma get_tf_type_numeric [simp]:
  "get_tf_type np_float16 = Inr DT_HALF"
  "get_tf_type np_float32 = Inr DT_FLOAT"
  "get_tf_type np_float64 = Inr DT_DOUBLE"
  "get_tf_type np_int8 = Inr DT_INT8"
  "get_tf_type np_int16 = Inr DT_INT16"
  "get_tf_type np_int32 = Inr DT_INT32"
  "get_tf_type np_int64 = Inr DT_INT64"
  "get_tf_type np_uint8 = Inr DT_UINT8"
  "get_tf_type np_uint16 = Inr DT_UINT16"
  "get_tf_type np_uint32 = Inr DT_UINT32"
  "get_tf_type np_uint64 = Inr DT_UINT64"
  "get_tf_type np_bool = Inr DT_BOOL"
  "get_tf_type np_complex64 = Inr DT_COMPLEX64"
  "get_tf_type np_complex128 = Inr DT_COMPLEX128"
  by (simp_all add: get_tf_type_def NP_TO_TF_def TF_TO_NP_def)

lemma get_tf_type_other [simp]:
  "get_tf_type np_bytes = Inr DT_STRING"
  "get_tf_type np_str = Inr DT_STRING"
  "get_tf_type np_object = Inl (TypeError (Could_not_infer_tensorflow_type np_object))"
  by (simp_all add: get_tf_type_def NP_TO_TF_def TF_TO_NP_def)

lemma wf_int64_elements:
  "wf_ndarray x \<Longrightarrow> dtype x = np_int64 \<Longrightarrow> s \<in> set (data x) \<Longrightarrow> \<exists>w. s = I64 w"
  by (cases s) (auto simp add: wf_ndarray_def list_all_iff)


lemma make_tensor_proto_raw:
  assumes "downcast f x = a" and "get_tf_type (dtype a) = Inr dt" and "dt \<noteq> DT_STRING"
  shows "make_tensor_proto f x =
           Inr \<lparr>tensor_dtype = dt, tensor_shape = shape a, tensor_content = tobytes a,
                float_val = [], double_val = [], int_val = [], bool_val = [], string_val = []\<rparr>"
  using assms by (simp add: make_tensor_proto_def)



lemma downcast_swapped: "byteorder x = Swapped \<Longrightarrow> downcast f x = x"
  by (simp add: downcast_def dtype_eq_def)

lemma astype_simps [simp]:
  "dtype (astype_float32 f x) = np_float32" "shape (astype_float32 f x) = shape x"
  "dtype (astype_int32 x) = np_int32" "shape (astype_int32 x) = shape x"
  by (simp_all add: astype_float32_def astype_int32_def)




section \<open>Encoding: byte strings\<close>

lemma append_bytes_scalars:
  "append_bytes (map PyScalar ss) acc =
     (if list_all (\<lambda>s. isinstance_bytes (PyScalar s)) ss
      then Inr (acc @ map (\<lambda>s. bytes_value (PyScalar s)) ss)
      else Inl (TypeError Expect_list_of_bytes))"
  by (induction ss arbitrary: acc) simp_all

lemma append_vectors_rows:
  "append_vectors (map (\<lambda>c. PyArray \<lparr>byteorder = b, dtype = d, shape = [m], data = c\<rparr>) cs) acc =
     (if list_all (\<lambda>s. isinstance_bytes (PyScalar s)) (concat cs)
      then Inr (acc @ map (\<lambda>s. bytes_value (PyScalar s)) (concat cs))
      else Inl (TypeError Expect_list_of_bytes))"
  by (induction cs arbitrary: acc) (simp_all add: append_bytes_scalars)

lemma collect_string_val_2d:
  assumes "shape x = [n, m]" and "0 \<le> n" and "0 \<le> m" and "int (length (data x)) = n * m"
  shows "collect_string_val x =
     (if list_all (\<lambda>s. isinstance_bytes (PyScalar s)) (data x)
      then Inr (map (\<lambda>s. bytes_value (PyScalar s)) (data x))
      else Inl (TypeError Expect_list_of_bytes))"
proof -
  have "length (data x) = nat n * nat m"
    using assms(2-4) by (metis nat_int nat_mult_distrib)
  then have "concat (rows (nat n) (nat m) (data x)) = data x"
    by (rule concat_rows)
  then show ?thesis
    using assms(1) append_vectors_rows [of "byteorder x" "dtype x" m "rows (nat n) (nat m) (data x)" "[]"]
    by (simp add: collect_string_val_def)
qed

lemma string_type_iff:
  "get_tf_type (dtype (downcast f x)) = Inr DT_STRING \<longleftrightarrow> dtype x = np_bytes \<or> dtype x = np_str"
  by (cases "dtype x") (simp_all add: downcast_def dtype_eq_def Let_def)

lemma make_tensor_proto_string:
  assumes "dtype x = np_bytes \<or> dtype x = np_str"
  shows "make_tensor_proto f x =
     (case collect_string_val x of
        Inl e \<Rightarrow> Inl e
      | Inr sv \<Rightarrow>
          Inr \<lparr>tensor_dtype = DT_STRING, tensor_shape = shape x, tensor_content = [],
               float_val = [], double_val = [], int_val = [], bool_val = [],
               string_val = sv\<rparr>)"
proof -
  have "downcast f x = x" using assms by (auto simp add: downcast_def dtype_eq_def)
  then show ?thesis using assms by (auto simp add: make_tensor_proto_def)
qed

text \<open>
  C7 (amended). The tensor type is resolved from the element type of the array alone:
  it is byte-string exactly for arrays of byte strings and of unicode strings. For such
  an array of two dimensions, encoding succeeds when every element is a byte string,
  with the elements in row-major order as the typed value list and no raw bytes, and
  fails with \<open>InvalidStringElement\<close> when some element is not a byte string.
\<close>

theorem encode_byte_strings_2d:
  assumes "shape x = [n, m]" and "0 \<le> n" and "0 \<le> m" and "int (length (data x)) = n * m"
  shows "(get_tf_type (dtype (downcast f x)) = Inr DT_STRING \<longleftrightarrow>
            dtype x = np_bytes \<or> dtype x = np_str) \<and>
         (dtype x = np_bytes \<or> dtype x = np_str \<longrightarrow>
            make_tensor_proto f x =
              (if list_all (\<lambda>s. isinstance_bytes (PyScalar s)) (data x)
               then Inr \<lparr>tensor_dtype = DT_STRING, tensor_shape = [n, m], tensor_content = [],
                         float_val = [], double_val = [], int_val = [], bool_val = [],
                         string_val = map (\<lambda>s. bytes_value (PyScalar s)) (data x)\<rparr>
               else Inl InvalidStringElement))"
  using assms(1) string_type_iff [of f x]
  by (simp add: make_tensor_proto_string collect_string_val_2d [OF assms]
        InvalidStringElement_def)

text \<open>
  \<^verbatim>\<open>[[b"x"], [b"y"]]\<close> is encoded with its two byte strings as the value list;
  \<^verbatim>\<open>[["x"], ["y"]]\<close> (unicode strings) is refused.
\<close>

theorem encode_byte_strings_2d_witness:
  "make_tensor_proto f64_to_f32_example x_bytes_2d =
     Inr \<lparr>tensor_dtype = DT_STRING, tensor_shape = [2, 1], tensor_content = [],
          float_val = [], double_val = [], int_val = [], bool_val = [],
          string_val = [[120], [121]]\<rparr> \<and>
   make_tensor_proto f64_to_f32_example x_str_2d = Inl InvalidStringElement"
  using encode_byte_strings_2d [of x_bytes_2d 2 1 f64_to_f32_example]
    encode_byte_strings_2d [of x_str_2d 2 1 f64_to_f32_example]
  by (simp add: x_bytes_2d_def x_str_2d_def)

text \<open>
  The claim as stated fails. The one-dimensional \<^verbatim>\<open>[b"x", b"y"]\<close> resolves to the
  byte-string type and all its elements are byte strings, yet encoding raises
  \<open>InvalidStringElement\<close>: the inner loop iterates the bytes of each element. And
  \<^verbatim>\<open>[[1], [2]]\<close> cannot be aimed at the byte-string type: it resolves to the 32-bit
  integer type and is encoded as raw bytes.
\<close>

theorem encode_byte_strings_counterexample:
  "get_tf_type (dtype (downcast f64_to_f32_example x_bytes_1d)) = Inr DT_STRING \<and>
   list_all (\<lambda>s. isinstance_bytes (PyScalar s)) (data x_bytes_1d) \<and>
   make_tensor_proto f64_to_f32_example x_bytes_1d = Inl InvalidStringElement \<and>
   make_tensor_proto f64_to_f32_example x_narrow =
     Inr \<lparr>tensor_dtype = DT_INT32, tensor_shape = [2, 1],
          tensor_content = [1, 0, 0, 0, 2, 0, 0, 0],
          float_val = [], double_val = [], int_val = [], bool_val = [], string_val = []\<rparr>"
  by code_simp

section \<open>Round trip\<close>

lemma wf_float64_elements:
  "wf_ndarray x \<Longrightarrow> dtype x = np_float64 \<Longrightarrow> s \<in> set (data x) \<Longrightarrow> \<exists>w. s = F64 w"
  by (cases s) (auto simp add: wf_ndarray_def list_all_iff)

lemma wf_astype_float32:
  assumes "wf_ndarray x" and "dtype x = np_float64"
  shows "wf_ndarray (astype_float32 f x)"
proof -
  have "scalar_type (case s of F64 w \<Rightarrow> F32 (f w) | _ \<Rightarrow> s) = np_float32"
    if "s \<in> set (data x)" for s
    using wf_float64_elements [OF assms that] by auto
  then show ?thesis
    using assms(1) by (simp add: wf_ndarray_def astype_float32_def list_all_iff)
qed

lemma wf_astype_int32:
  assumes "wf_ndarray x" and "dtype x = np_int64"
  shows "wf_ndarray (astype_int32 x)"
proof -
  have "scalar_type (case s of I64 w \<Rightarrow> I32 (ucast w) | _ \<Rightarrow> s) = np_int32"
    if "s \<in> set (data x)" for s
    using wf_int64_elements [OF assms that] by auto
  then show ?thesis
    using assms(1) by (simp add: wf_ndarray_def astype_int32_def list_all_iff)
qed

lemma wf_downcast: "wf_ndarray x \<Longrightarrow> wf_ndarray (downcast f x)"
  by (simp add: downcast_def dtype_eq_def Let_def wf_astype_float32 wf_astype_int32)

lemma shape_downcast [simp]: "shape (downcast f x) = shape x"
  by (simp add: downcast_def dtype_eq_def Let_def)

lemma length_data_downcast [simp]: "length (data (downcast f x)) = length (data x)"
  by (simp add: downcast_def dtype_eq_def Let_def astype_float32_def astype_int32_def)

lemma data_downcast_Nil: "data x = [] \<Longrightarrow> data (downcast f x) = []"
  by (simp add: downcast_def dtype_eq_def Let_def astype_float32_def astype_int32_def)

lemma numeric_downcast:
  "dtype x \<notin> {np_object, np_bytes, np_str} \<Longrightarrow>
   dtype (downcast f x) \<notin> {np_object, np_bytes, np_str}"
  by (auto simp add: downcast_def dtype_eq_def Let_def)

lemma byteorder_downcast: "byteorder x = Native \<Longrightarrow> byteorder (downcast f x) = Native"
  by (simp add: downcast_def dtype_eq_def Let_def astype_float32_def astype_int32_def)

lemma listed_downcast:
  "dtype x \<in> {np_float32, np_float64, np_int32, np_int64, np_bool} \<Longrightarrow> byteorder x = Native \<Longrightarrow>
   dtype (downcast f x) \<in> {np_float32, np_int32, np_int64, np_bool}"
  by (auto simp add: downcast_def dtype_eq_def Let_def)

lemma registry_inverse:
  "d \<notin> {np_object, np_bytes, np_str} \<Longrightarrow>
   \<exists>dt. get_tf_type d = Inr dt \<and> dt \<noteq> DT_STRING \<and> get_np_dtype dt = Inr d"
  by (cases d) (simp_all add: get_np_dtype_def TF_TO_NP_def)

lemma selected_list_empty_lists:
  assumes "d \<in> {np_float32, np_int32, np_int64, np_bool}" and "get_tf_type d = Inr dt"
  shows "selected_list \<lparr>tensor_dtype = dt, tensor_shape = sh, tensor_content = c,
           float_val = [], double_val = [], int_val = [], bool_val = [], string_val = []\<rparr>
         = Some []"
  using assms by (auto simp add: selected_list_def)

lemma length_scalar_tobytes_swapped [simp]:
  "length (scalar_tobytes_swapped s) = length (scalar_tobytes s)"
  by (cases s) simp_all

lemma tobytes_native: "byteorder a = Native \<Longrightarrow> tobytes a = concat (map scalar_tobytes (data a))"
  by (simp add: tobytes_def)

lemma frombytes_tobytes_data:
  assumes "wf_ndarray a" and "dtype a \<notin> {np_object, np_bytes, np_str}"
    and "byteorder a = Native"
  shows "map (scalar_frombytes (dtype a)) (chunks (itemsize (dtype a)) (tobytes a)) = data a"
proof -
  let ?d = "dtype a" and ?k = "itemsize (dtype a)"
  have ty: "scalar_type s = ?d" if "s \<in> set (data a)" for s
    using assms(1) that by (simp add: wf_ndarray_def list_all_iff)
  have k: "0 < ?k" using assms(2) by (cases ?d) simp_all
  have len: "length bs = ?k" if "bs \<in> set (map scalar_tobytes (data a))" for bs
    using that ty assms(2) by (auto simp add: length_scalar_tobytes)
  have "chunks ?k (tobytes a) = map scalar_tobytes (data a)"
    unfolding tobytes_native [OF assms(3)] using k len by (rule chunks_concat)
  moreover have "map (\<lambda>s. scalar_frombytes ?d (scalar_tobytes s)) (data a) = data a"
  proof (rule map_idI)
    fix s assume "s \<in> set (data a)"
    then have "scalar_type s = ?d" by (rule ty)
    then show "scalar_frombytes ?d (scalar_tobytes s) = s"
      using scalar_frombytes_tobytes [of s] assms(2) by simp
  qed
  ultimately show ?thesis by (simp add: comp_def)
qed

lemma length_tobytes:
  assumes "wf_ndarray a" and "dtype a \<notin> {np_object, np_bytes, np_str}"
  shows "length (tobytes a) = length (data a) * itemsize (dtype a)"
proof -
  let ?f = "if byteorder a = Native then scalar_tobytes else scalar_tobytes_swapped"
  have "length bs = itemsize (dtype a)" if "bs \<in> set (map ?f (data a))" for bs
    using that assms by (auto simp add: length_scalar_tobytes wf_ndarray_def list_all_iff)
  then show ?thesis
    unfolding tobytes_def using length_concat_const [of "map ?f (data a)"] by simp
qed

lemma roundtrip_numeric:
  assumes "wf_ndarray x"
    and "dtype x \<notin> {np_object, np_bytes, np_str}"
    and "data x \<noteq> [] \<or> dtype x \<in> {np_float32, np_float64, np_int32, np_int64, np_bool}"
    and "byteorder x = Native"
  shows "\<exists>t. make_tensor_proto f x = Inr t \<and> make_ndarray_from_tensor t = Inr (downcast f x)"
proof -
  let ?a = "downcast f x"
  let ?d = "dtype ?a"
  have wf: "wf_ndarray ?a" using assms(1) by (rule wf_downcast)
  have nat: "byteorder ?a = Native" using assms(4) by (rule byteorder_downcast)
  have num: "?d \<notin> {np_object, np_bytes, np_str}" using assms(2) by (rule numeric_downcast)
  obtain dt where dt: "get_tf_type ?d = Inr dt" "dt \<noteq> DT_STRING" "get_np_dtype dt = Inr ?d"
    using registry_inverse [OF num] by blast
  let ?t = "\<lparr>tensor_dtype = dt, tensor_shape = shape ?a, tensor_content = tobytes ?a,
      float_val = [], double_val = [], int_val = [], bool_val = [], string_val = []\<rparr>"
  have enc: "make_tensor_proto f x = Inr ?t"
    using make_tensor_proto_raw [OF refl dt(1,2)] .
  have dims: "list_all (\<lambda>n. 0 \<le> n) (shape ?a)"
    and cnt: "int (length (data ?a)) = prod_list (shape ?a)"
    using wf by (simp_all add: wf_ndarray_def)
  have k: "0 < itemsize ?d" using num by (cases ?d) simp_all
  have "make_ndarray_from_tensor ?t = Inr ?a"
  proof (cases "data x = []")
    case False
    then have "0 < length (data ?a) * itemsize ?d"
      using k by simp
    then have "0 < length (tobytes ?a)"
      using length_tobytes [OF wf num] by simp
    then have ne: "tensor_content ?t \<noteq> []"
      by auto
    have mod0: "length (tobytes ?a) mod itemsize ?d = 0"
      using length_tobytes [OF wf num] by simp
    have fb: "np_frombuffer (tobytes ?a) ?d =
        Inr \<lparr>byteorder = Native, dtype = ?d,
             shape = [int (length (tobytes ?a) div itemsize ?d)], data = data ?a\<rparr>"
      using np_frombuffer_ok [OF num mod0] frombytes_tobytes_data [OF wf num nat] by simp
    have "np_reshape \<lparr>byteorder = Native, dtype = ?d,
              shape = [int (length (tobytes ?a) div itemsize ?d)], data = data ?a\<rparr>
            (shape ?a) = Inr ?a"
      using np_reshape_nonneg [OF dims, of "\<lparr>byteorder = Native, dtype = ?d,
          shape = [int (length (tobytes ?a) div itemsize ?d)], data = data ?a\<rparr>"] cnt nat
      by simp
    then show ?thesis
      using decode_content [OF ne, of ?d] dt(3) fb by simp
  next
    case True
    then have e: "data ?a = []" by (rule data_downcast_Nil)
    then have c: "tensor_content ?t = []" by (simp add: tobytes_def)
    have "?d \<in> {np_float32, np_int32, np_int64, np_bool}"
      using True assms(3,4) listed_downcast by blast
    then have sel: "selected_list ?t = Some []"
      using dt(1) by (rule selected_list_empty_lists)
    have "make_ndarray_from_tensor ?t =
        Inr \<lparr>byteorder = Native, dtype = ?d, shape = tensor_shape ?t, data = []\<rparr>"
      using dims cnt e wf
      by (intro decode_exact_list [OF c _ sel]) (simp_all add: dt(3) wf_ndarray_def)
    then show ?thesis using e nat by simp
  qed
  with enc have "make_tensor_proto f x = Inr ?t \<and> make_ndarray_from_tensor ?t = Inr ?a"
    by simp
  then show ?thesis by (rule exI)
qed

lemma wf_bytes_elements:
  "wf_ndarray x \<Longrightarrow> dtype x = np_bytes \<Longrightarrow> s \<in> set (data x) \<Longrightarrow> isinstance_bytes (PyScalar s)"
  by (cases s) (auto simp add: wf_ndarray_def list_all_iff)

lemma roundtrip_bytes:
  assumes "wf_ndarray x" and "dtype x = np_bytes" and "length (shape x) = 2"
  shows "\<exists>t. make_tensor_proto f x = Inr t \<and>
           make_ndarray_from_tensor t =
             Inr \<lparr>byteorder = Native, dtype = np_object, shape = shape x,
                  data = map (\<lambda>s. Obj (PyBytes (bytes_value (PyScalar s)))) (data x)\<rparr>"
proof -
  obtain n m where sh: "shape x = [n, m]"
    using assms(3) by (cases "shape x"; cases "tl (shape x)") auto
  have dims: "list_all (\<lambda>n. 0 \<le> n) (shape x)"
    and cnt: "int (length (data x)) = prod_list (shape x)"
    and bound: "prod_list (shape x) < 2 ^ 63"
    using assms(1) by (simp_all add: wf_ndarray_def)
  have all: "list_all (\<lambda>s. isinstance_bytes (PyScalar s)) (data x)"
    using wf_bytes_elements [OF assms(1,2)] by (simp add: list_all_iff)
  let ?sv = "map (\<lambda>s. bytes_value (PyScalar s)) (data x)"
  let ?t = "\<lparr>tensor_dtype = DT_STRING, tensor_shape = shape x, tensor_content = [],
      float_val = [], double_val = [], int_val = [], bool_val = [], string_val = ?sv\<rparr>"
  have "collect_string_val x = Inr ?sv"
    using collect_string_val_2d [OF sh] dims cnt all sh by simp
  then have enc: "make_tensor_proto f x = Inr ?t"
    using assms(2) by (simp add: make_tensor_proto_string)
  have sel: "selected_list ?t = Some (map (\<lambda>s. Obj (PyBytes (bytes_value (PyScalar s)))) (data x))"
    by (simp add: selected_list_def comp_def)
  have "make_ndarray_from_tensor ?t =
      Inr \<lparr>byteorder = Native, dtype = np_object, shape = tensor_shape ?t,
           data = map (\<lambda>s. Obj (PyBytes (bytes_value (PyScalar s)))) (data x)\<rparr>"
    using dims cnt bound
    by (intro decode_exact_list [OF _ _ sel]) (simp_all add: get_np_dtype_def TF_TO_NP_def)
  then have "make_tensor_proto f x = Inr ?t \<and>
      make_ndarray_from_tensor ?t =
        Inr \<lparr>byteorder = Native, dtype = np_object, shape = shape x,
             data = map (\<lambda>s. Obj (PyBytes (bytes_value (PyScalar s)))) (data x)\<rparr>"
    using enc by simp
  then show ?thesis by (rule exI)
qed

text \<open>
  C1 (amended). For a well-formed array in the byte order of the machine, of a
  registered numeric element type, that is not empty, or that is empty and of a 32- or
  64-bit float, 32- or 64-bit signed integer or boolean type, encoding succeeds and
  decoding the tensor gives exactly the downcast array: the same byte order, element
  type, shape and elements. For a well-formed two-dimensional array of byte strings,
  encoding succeeds and decoding gives the object array of the same shape with the same
  byte strings.
\<close>

theorem decode_encode_roundtrip:
  assumes "wf_ndarray x"
  shows "(dtype x \<notin> {np_object, np_bytes, np_str} \<and> byteorder x = Native \<and>
          (data x \<noteq> [] \<or> dtype x \<in> {np_float32, np_float64, np_int32, np_int64, np_bool}) \<longrightarrow>
            (\<exists>t. make_tensor_proto f x = Inr t \<and>
                 make_ndarray_from_tensor t = Inr (downcast f x))) \<and>
         (dtype x = np_bytes \<and> length (shape x) = 2 \<longrightarrow>
            (\<exists>t. make_tensor_proto f x = Inr t \<and>
                 make_ndarray_from_tensor t =
                   Inr \<lparr>byteorder = Native, dtype = np_object, shape = shape x,
                        data = map (\<lambda>s. Obj (PyBytes (bytes_value (PyScalar s)))) (data x)\<rparr>))"
proof (intro conjI impI)
  assume "dtype x \<notin> {np_object, np_bytes, np_str} \<and> byteorder x = Native \<and>
      (data x \<noteq> [] \<or> dtype x \<in> {np_float32, np_float64, np_int32, np_int64, np_bool})"
  then show "\<exists>t. make_tensor_proto f x = Inr t \<and> make_ndarray_from_tensor t = Inr (downcast f x)"
    by (elim conjE) (rule roundtrip_numeric [OF assms])
next
  assume "dtype x = np_bytes \<and> length (shape x) = 2"
  then show "\<exists>t. make_tensor_proto f x = Inr t \<and>
      make_ndarray_from_tensor t =
        Inr \<lparr>byteorder = Native, dtype = np_object, shape = shape x,
             data = map (\<lambda>s. Obj (PyBytes (bytes_value (PyScalar s)))) (data x)\<rparr>"
    by (elim conjE) (rule roundtrip_bytes [OF assms])
qed

text \<open>
  \<^verbatim>\<open>[[1], [2]]\<close> (64-bit integers) comes back as the 32-bit \<^verbatim>\<open>[[1], [2]]\<close>, and
  \<^verbatim>\<open>[[b"x"], [b"y"]]\<close> as the object array of the same byte strings.
\<close>

theorem decode_encode_roundtrip_witness:
  "(case make_tensor_proto f64_to_f32_example x_narrow of
      Inl e \<Rightarrow> False
    | Inr t \<Rightarrow> make_ndarray_from_tensor t =
        Inr \<lparr>byteorder = Native, dtype = np_int32, shape = [2, 1], data = [I32 1, I32 2]\<rparr>) \<and>
   (case make_tensor_proto f64_to_f32_example x_bytes_2d of
      Inl e \<Rightarrow> False
    | Inr t \<Rightarrow> make_ndarray_from_tensor t =
        Inr \<lparr>byteorder = Native, dtype = np_object, shape = [2, 1],
             data = [Obj (PyBytes [120]), Obj (PyBytes [121])]\<rparr>)"
proof -
  have wf: "wf_ndarray x_narrow" "wf_ndarray x_bytes_2d"
    by (simp_all add: wf_ndarray_def x_narrow_def x_bytes_2d_def)
  have d: "downcast f64_to_f32_example x_narrow =
      \<lparr>byteorder = Native, dtype = np_int32, shape = [2, 1], data = [I32 1, I32 2]\<rparr>"
    by code_simp
  have "dtype x_narrow \<notin> {np_object, np_bytes, np_str} \<and> byteorder x_narrow = Native \<and>
      (data x_narrow \<noteq> [] \<or>
       dtype x_narrow \<in> {np_float32, np_float64, np_int32, np_int64, np_bool})"
    by (simp add: x_narrow_def)
  from decode_encode_roundtrip [OF wf(1), of f64_to_f32_example, THEN conjunct1, THEN mp, OF this]
  obtain t where "make_tensor_proto f64_to_f32_example x_narrow = Inr t"
    and "make_ndarray_from_tensor t = Inr (downcast f64_to_f32_example x_narrow)"
    by blast
  then have one: "case make_tensor_proto f64_to_f32_example x_narrow of
      Inl e \<Rightarrow> False
    | Inr t \<Rightarrow> make_ndarray_from_tensor t =
        Inr \<lparr>byteorder = Native, dtype = np_int32, shape = [2, 1], data = [I32 1, I32 2]\<rparr>"
    using d by simp
  have "dtype x_bytes_2d = np_bytes \<and> length (shape x_bytes_2d) = 2"
    by (simp add: x_bytes_2d_def)
  from decode_encode_roundtrip [OF wf(2), of f64_to_f32_example, THEN conjunct2, THEN mp, OF this]
  obtain u where "make_tensor_proto f64_to_f32_example x_bytes_2d = Inr u"
    and "make_ndarray_from_tensor u =
      Inr \<lparr>byteorder = Native, dtype = np_object, shape = shape x_bytes_2d,
           data = map (\<lambda>s. Obj (PyBytes (bytes_value (PyScalar s)))) (data x_bytes_2d)\<rparr>"
    by blast
  then have two: "case make_tensor_proto f64_to_f32_example x_bytes_2d of
      Inl e \<Rightarrow> False
    | Inr t \<Rightarrow> make_ndarray_from_tensor t =
        Inr \<lparr>byteorder = Native, dtype = np_object, shape = [2, 1],
             data = [Obj (PyBytes [120]), Obj (PyBytes [121])]\<rparr>"
    by (simp add: x_bytes_2d_def)
  from one two show ?thesis by (rule conjI)
qed

text \<open>
  The claim as stated fails on an empty array of 8-bit unsigned integers: its encoding
  has an empty buffer, which the decoder takes for an absent one, and the type has no
  value list. It also fails on the one-dimensional \<^verbatim>\<open>[b"x", b"y"]\<close>, which is not
  encoded at all, and on the byte-swapped 32-bit integer array \<^verbatim>\<open>[1]\<close>: its bytes are
  written in the array's order and read in the machine's, which gives 16777216.
\<close>

theorem decode_encode_roundtrip_counterexample:
  "wf_ndarray x_empty_u8 \<and>
   make_tensor_proto f64_to_f32_example x_empty_u8 = Inr t_empty_u8 \<and>
   make_ndarray_from_tensor t_empty_u8 = Inl (UnsupportedEncoding DT_UINT8) \<and>
   wf_ndarray x_bytes_1d \<and>
   make_tensor_proto f64_to_f32_example x_bytes_1d = Inl InvalidStringElement \<and>
   wf_ndarray x_swapped_i32 \<and>
   make_tensor_proto f64_to_f32_example x_swapped_i32 = Inr t_swapped_i32 \<and>
   make_ndarray_from_tensor t_swapped_i32 =
     Inr \<lparr>byteorder = Native, dtype = np_int32, shape = [1], data = [I32 16777216]\<rparr>"
  by code_simp

section \<open>Decoded arrays are well-shaped\<close>

lemma prod_list_unknown_dims:
  "prod_list (map (\<lambda>d. if d < 0 then q else d) sh) =
     q ^ length (filter (\<lambda>d. d < 0) sh) * prod_list (filter (\<lambda>d. 0 \<le> d) sh)"
  for q :: int
  by (induction sh) (simp_all add: not_le)

lemma np_reshape_shaped:
  assumes "np_reshape b sh = Inr a"
  shows "int (length (data a)) = prod_list (shape a) \<and> list_all (\<lambda>d. 0 \<le> d) (shape a) \<and>
         data a = data b \<and> dtype a = dtype b"
proof (cases "list_all (\<lambda>d. 0 \<le> d) sh")
  case True
  then have "filter (\<lambda>d. 0 \<le> d) sh = sh" by (simp add: list_all_iff)
  moreover have "filter (\<lambda>d. d < 0) sh = []"
    using True by (auto simp add: list_all_iff filter_empty_conv)
  ultimately show ?thesis
    using assms True by (auto simp add: np_reshape_def Let_def split: if_splits)
next
  case False
  let ?known = "prod_list (filter (\<lambda>d. 0 \<le> d) sh)"
  let ?n = "int (length (data b))"
  let ?q = "?n div ?known"
  from assms False have one: "\<not> 1 < length (filter (\<lambda>d. d < 0) sh)"
    and k: "?known \<noteq> 0" "?n mod ?known = 0"
    and a: "a = b\<lparr>shape := map (\<lambda>d. if d < 0 then ?q else d) sh\<rparr>"
    by (auto simp add: np_reshape_def Let_def split: if_splits)
  have "filter (\<lambda>d. d < 0) sh \<noteq> []"
    using False by (force simp add: list_all_iff filter_empty_conv not_le)
  with one have cnt: "length (filter (\<lambda>d. d < 0) sh) = 1"
    by (cases "filter (\<lambda>d. d < 0) sh") auto
  have "0 \<le> ?known"
    by (rule prod_list_nonneg_dims) (simp add: list_all_iff)
  with k(1) have pos: "0 < ?known" by simp
  then have q: "0 \<le> ?q" by (simp add: pos_imp_zdiv_nonneg_iff)
  have "prod_list (shape a) = ?q * ?known"
    using a cnt by (simp add: prod_list_unknown_dims)
  also have "\<dots> = ?n" using k(2) by (simp add: mod_0_imp_dvd)
  finally have "int (length (data a)) = prod_list (shape a)" using a by simp
  moreover have "list_all (\<lambda>d. 0 \<le> d) (shape a)"
    using a q by (auto simp add: list_all_iff)
  ultimately show ?thesis using a by simp
qed

lemma np_zeros_shaped:
  "np_zeros sh d = Inr a \<Longrightarrow>
   int (length (data a)) = prod_list (shape a) \<and> list_all (\<lambda>d. 0 \<le> d) (shape a)"
  by (auto simp add: np_zeros_def prod_list_nonneg_dims split: if_splits)

lemma decode_shaped:
  assumes "make_ndarray_from_tensor t = Inr a"
  shows "int (length (data a)) = prod_list (shape a) \<and> list_all (\<lambda>d. 0 \<le> d) (shape a)"
  using assms
  by (auto simp add: make_ndarray_from_tensor_def Let_def
        split: sum.splits if_splits dest: np_reshape_shaped np_zeros_shaped)

lemma decode_column_length:
  assumes "make_ndarray_from_tensor t = Inr a" and "shape a = [n, 1]"
  shows "length (data a) = nat n" and "0 \<le> n"
  using decode_shaped [OF assms(1)] assms(2) by auto

section \<open>Columns of the sample matrix\<close>

lemma length_write_column [simp]: "length (write_column nc j i vs cs) = length cs"
  by (induction vs arbitrary: i cs) simp_all

lemma write_column_other:
  "j < nc \<Longrightarrow> j' < nc \<Longrightarrow> j' \<noteq> j \<Longrightarrow>
   write_column nc j i vs cs ! (r * nc + j') = cs ! (r * nc + j')"
proof (induction vs arbitrary: i cs)
  case Nil
  then show ?case by simp
next
  case (Cons v vs)
  have "i * nc + j \<noteq> r * nc + j'"
  proof
    assume "i * nc + j = r * nc + j'"
    then have "(i * nc + j) mod nc = (r * nc + j') mod nc" by simp
    then show False using Cons.prems by simp
  qed
  then show ?case using Cons by simp
qed

lemma write_column_before:
  "j < nc \<Longrightarrow> r < i \<Longrightarrow> write_column nc j i vs cs ! (r * nc + j) = cs ! (r * nc + j)"
proof (induction vs arbitrary: i cs)
  case Nil
  then show ?case by simp
next
  case (Cons v vs)
  then have "i * nc + j \<noteq> r * nc + j" by simp
  then show ?case using Cons by simp
qed

lemma write_column_written:
  "j < nc \<Longrightarrow> i \<le> r \<Longrightarrow> r < i + length vs \<Longrightarrow> r * nc + j < length cs \<Longrightarrow>
   write_column nc j i vs cs ! (r * nc + j) = Some (vs ! (r - i))"
proof (induction vs arbitrary: i cs)
  case Nil
  then show ?case by simp
next
  case (Cons v vs)
  show ?case
  proof (cases "r = i")
    case True
    then show ?thesis
      using Cons.prems write_column_before [of j nc i "Suc i" vs "cs[i * nc + j := Some v]"]
      by simp
  next
    case False
    then have "write_column nc j (Suc i) vs (cs[i * nc + j := Some v]) ! (r * nc + j) =
        Some (vs ! (r - Suc i))"
      using Cons.prems by (intro Cons.IH) simp_all
    then show ?thesis using False Cons.prems(2) by (simp add: nth_Cons' Suc_diff_le)
  qed
qed

lemma cell_index_bound: "r < nr \<Longrightarrow> j < nc \<Longrightarrow> r * nc + j < nr * nc" for r :: nat
proof -
  assume "r < nr" "j < nc"
  then have "r * nc + j < r * nc + nc" by simp
  also have "\<dots> = Suc r * nc" by simp
  also have "\<dots> \<le> nr * nc" using \<open>r < nr\<close> by (intro mult_le_mono1) simp
  finally show ?thesis .
qed

lemma column_write_column:
  assumes "j < nc" and "length vs = nr" and "length cs = nr * nc"
  shows "map (\<lambda>i. write_column nc j 0 vs cs ! (i * nc + j)) [0..<nr] = map Some vs"
proof (rule nth_equalityI)
  show "length (map (\<lambda>i. write_column nc j 0 vs cs ! (i * nc + j)) [0..<nr]) = length (map Some vs)"
    using assms(2) by simp
next
  fix r assume "r < length (map (\<lambda>i. write_column nc j 0 vs cs ! (i * nc + j)) [0..<nr])"
  then have r: "r < nr" by simp
  then have "r * nc + j < length cs" using assms(1,3) by (simp add: cell_index_bound)
  then show "map (\<lambda>i. write_column nc j 0 vs cs ! (i * nc + j)) [0..<nr] ! r = map Some vs ! r"
    using r assms(1,2) write_column_written [of j nc 0 r vs cs] by simp
qed

section \<open>The two loops of sample assembly\<close>

lemma cast_all_converted:
  "list_all (\<lambda>s. converted cast d s \<noteq> None) xs \<Longrightarrow>
   cast_all (cast d) xs = Inr (map (\<lambda>s. the (converted cast d s)) xs)"
  by (induction xs) (auto simp add: converted_def split: sum.splits)

lemma np_reshape_flat: "np_reshape a [- 1] = Inr (a\<lparr>shape := [int (length (data a))]\<rparr>)"
  by (simp add: np_reshape_def)

lemma check_all_exist_missing:
  assumes "\<forall>p \<in> set pre. request_inputs p \<noteq> None" and "request_inputs name = None"
  shows "check_all_exist request_inputs (pre @ name # post) =
           Inl (PythieServingException (name @ '' not set in the predict request.''))"
  using assms by (induction pre) (auto simp add: check_request_feature_exists_def)

lemma check_all_exist_present:
  "check_all_exist request_inputs names = Inr u \<longleftrightarrow> (\<forall>n \<in> set names. request_inputs n \<noteq> None)"
  by (induction names) (auto simp add: check_request_feature_exists_def)

text \<open>One pass of the second loop: when it goes through, and what it leaves.\<close>

lemma fill_feature_Inr:
  assumes "fill_feature cast request_inputs nb_samples j name m = Inr m'"
  shows "\<exists>t a vs. request_inputs name = Some t \<and> dim0_size t = Inr nb_samples \<and>
           make_ndarray_from_tensor t = Inr a \<and> length (shape a) = 2 \<and> shape a ! 1 = 1 \<and>
           j < ncols m \<and> cast_all (cast (mat_dtype m)) (data a) = Inr vs \<and>
           m' = m\<lparr>cells := write_column (ncols m) j 0
                    (if length vs = nrows m then vs else replicate (nrows m) (hd vs)) (cells m)\<rparr>"
  using assms
  by (auto simp add: fill_feature_def check_request_valid_length_def get_input_def
        check_array_shape_def np_reshape_flat set_column_def
        split: sum.splits option.splits if_splits)

lemma column_feature_D:
  assumes "column_feature cast request_inputs nb_samples d name"
  obtains t a where "request_inputs name = Some t" and "dim0_size t = Inr nb_samples"
    and "make_ndarray_from_tensor t = Inr a" and "shape a = [nb_samples, 1]"
    and "list_all (\<lambda>s. converted cast d s \<noteq> None) (data a)"
    and "decoded_column request_inputs name = data a"
    and "length (data a) = nat nb_samples" and "0 \<le> nb_samples"
proof -
  from assms obtain t a where *: "request_inputs name = Some t" "dim0_size t = Inr nb_samples"
    "make_ndarray_from_tensor t = Inr a" "shape a = [nb_samples, 1]"
    "list_all (\<lambda>s. converted cast d s \<noteq> None) (data a)"
    by (auto simp add: column_feature_def split: option.splits sum.splits)
  moreover have "decoded_column request_inputs name = data a"
    using * by (simp add: decoded_column_def)
  moreover have "length (data a) = nat nb_samples" "0 \<le> nb_samples"
    using decode_column_length [OF *(3,4)] by simp_all
  ultimately show ?thesis by (rule that)
qed

lemma fill_feature_column:
  assumes "column_feature cast request_inputs nb_samples (mat_dtype m) name"
    and "j < ncols m" and "nrows m = nat nb_samples"
  shows "fill_feature cast request_inputs nb_samples j name m =
           Inr (m\<lparr>cells := write_column (ncols m) j 0
                   (map (\<lambda>s. the (converted cast (mat_dtype m) s)) (decoded_column request_inputs name))
                   (cells m)\<rparr>)"
proof -
  from assms(1) obtain t a where *: "request_inputs name = Some t"
    "dim0_size t = Inr nb_samples" "make_ndarray_from_tensor t = Inr a"
    "shape a = [nb_samples, 1]" "list_all (\<lambda>s. converted cast (mat_dtype m) s \<noteq> None) (data a)"
    "decoded_column request_inputs name = data a" "length (data a) = nat nb_samples"
    by (rule column_feature_D)
  show ?thesis
    using * assms(2,3) cast_all_converted [OF *(5)]
    by (simp add: fill_feature_def check_request_valid_length_def get_input_def
          check_array_shape_def np_reshape_flat set_column_def)
qed

lemma column_after_write:
  assumes "j < ncols m" and "length vs = nrows m" and "length (cells m) = nrows m * ncols m"
  shows "column (m\<lparr>cells := write_column (ncols m) j 0 vs (cells m)\<rparr>) j = map Some vs"
  using column_write_column [OF assms] by (simp add: column_def)

lemma column_after_write_other:
  assumes "j < ncols m" and "k < ncols m" and "k \<noteq> j"
  shows "column (m\<lparr>cells := write_column (ncols m) j 0 vs (cells m)\<rparr>) k = column m k"
  using write_column_other [OF assms(1,2,3)] by (simp add: column_def)

lemma map_Some_the_converted:
  "list_all (\<lambda>s. converted cast d s \<noteq> None) xs \<Longrightarrow>
   map Some (map (\<lambda>s. the (converted cast d s)) xs) = map (converted cast d) xs"
  by (induction xs) auto

lemma fill_features_append:
  "fill_features cast request_inputs nb_samples j (pre @ rest) m =
     (case fill_features cast request_inputs nb_samples j pre m of
        Inl e \<Rightarrow> Inl e
      | Inr m' \<Rightarrow> fill_features cast request_inputs nb_samples (j + length pre) rest m')"
  by (induction pre arbitrary: j m) (simp_all split: sum.splits)

lemma fill_features_columns:
  assumes "\<forall>name \<in> set names. column_feature cast request_inputs nb_samples (mat_dtype m) name"
    and "j + length names \<le> ncols m"
    and "nrows m = nat nb_samples"
    and "length (cells m) = nrows m * ncols m"
  shows "\<exists>m'. fill_features cast request_inputs nb_samples j names m = Inr m' \<and>
           nrows m' = nrows m \<and> ncols m' = ncols m \<and> mat_dtype m' = mat_dtype m \<and>
           length (cells m') = length (cells m) \<and>
           (\<forall>i < length names. column m' (j + i) =
              map (converted cast (mat_dtype m)) (decoded_column request_inputs (names ! i))) \<and>
           (\<forall>k < j. column m' k = column m k)"
  using assms
proof (induction names arbitrary: j m)
  case Nil
  then show ?case by simp
next
  case (Cons name names)
  let ?d = "mat_dtype m"
  let ?vs = "map (\<lambda>s. the (converted cast ?d s)) (decoded_column request_inputs name)"
  let ?m1 = "m\<lparr>cells := write_column (ncols m) j 0 ?vs (cells m)\<rparr>"
  have feat: "column_feature cast request_inputs nb_samples ?d name"
    using Cons.prems(1) by simp
  have j: "j < ncols m" using Cons.prems(2) by simp
  have one: "fill_feature cast request_inputs nb_samples j name m = Inr ?m1"
    using fill_feature_column [OF feat j Cons.prems(3)] .
  from feat obtain t a where "request_inputs name = Some t" "dim0_size t = Inr nb_samples"
    "make_ndarray_from_tensor t = Inr a" "shape a = [nb_samples, 1]"
    and a3: "list_all (\<lambda>s. converted cast ?d s \<noteq> None) (data a)"
    and a1: "decoded_column request_inputs name = data a"
    and a2: "length (data a) = nat nb_samples" and "0 \<le> nb_samples"
    by (rule column_feature_D)
  note a = a1 a2 a3
  have len: "length ?vs = nrows m" using a Cons.prems(3) by simp
  have colj: "column ?m1 j = map (converted cast ?d) (decoded_column request_inputs name)"
    using column_after_write [OF j len Cons.prems(4)] a(1,3) map_Some_the_converted [of cast ?d "data a"]
    by simp
  have "\<exists>m'. fill_features cast request_inputs nb_samples (Suc j) names ?m1 = Inr m' \<and>
      nrows m' = nrows ?m1 \<and> ncols m' = ncols ?m1 \<and> mat_dtype m' = mat_dtype ?m1 \<and>
      length (cells m') = length (cells ?m1) \<and>
      (\<forall>i < length names. column m' (Suc j + i) =
         map (converted cast (mat_dtype ?m1)) (decoded_column request_inputs (names ! i))) \<and>
      (\<forall>k < Suc j. column m' k = column ?m1 k)"
    using Cons.prems by (intro Cons.IH) simp_all
  then obtain m' where m': "fill_features cast request_inputs nb_samples (Suc j) names ?m1 = Inr m'"
    "nrows m' = nrows m" "ncols m' = ncols m" "mat_dtype m' = mat_dtype m"
    "length (cells m') = length (cells m)"
    and later: "\<And>i. i < length names \<Longrightarrow> column m' (Suc j + i) =
         map (converted cast ?d) (decoded_column request_inputs (names ! i))"
    and earlier: "\<And>k. k < Suc j \<Longrightarrow> column m' k = column ?m1 k"
    by auto
  have "fill_features cast request_inputs nb_samples j (name # names) m = Inr m'"
    using one m'(1) by simp
  moreover have "column m' (j + i) =
      map (converted cast ?d) (decoded_column request_inputs ((name # names) ! i))"
    if "i < length (name # names)" for i
  proof (cases i)
    case 0
    then show ?thesis using earlier [of j] colj by simp
  next
    case (Suc i')
    then show ?thesis using later [of i'] that by simp
  qed
  moreover have "column m' k = column m k" if "k < j" for k
    using earlier [of k] that j column_after_write_other [of j m k ?vs] by simp
  ultimately show ?case using m'(2-5) by blast
qed

lemma np_reshape_dim0:
  assumes "np_reshape b (n # rest) = Inr a" and "0 \<le> n"
  shows "shape a \<noteq> [] \<and> hd (shape a) = n"
  using assms by (auto simp add: np_reshape_def Let_def split: if_splits)

lemma decode_dim0:
  assumes "make_ndarray_from_tensor t = Inr a" and "dim0_size t = Inr n" and "0 \<le> n"
  shows "shape a \<noteq> [] \<and> hd (shape a) = n"
proof -
  from assms(2) obtain rest where sh: "tensor_shape t = n # rest"
    by (auto simp add: dim0_size_def split: list.splits)
  show ?thesis
    using assms(1,3) sh
    by (auto simp add: make_ndarray_from_tensor_def Let_def np_zeros_def
          split: sum.splits if_splits dest: np_reshape_dim0)
qed

lemma column_shape_eq:
  assumes "length (shape a) = 2" and "shape a ! 1 = 1" and "hd (shape a) = n"
  shows "shape a = [n, 1]"
  using assms by (cases "shape a"; cases "tl (shape a)") auto

lemma fill_features_Inr:
  assumes "fill_features cast request_inputs nb_samples j names m = Inr m'"
    and "length (cells m) = nrows m * ncols m"
    and "0 \<le> nb_samples"
  shows "nrows m' = nrows m \<and> ncols m' = ncols m \<and> mat_dtype m' = mat_dtype m \<and>
         length (cells m') = length (cells m) \<and>
         (\<forall>i < length names.
            (\<exists>t a. request_inputs (names ! i) = Some t \<and> dim0_size t = Inr nb_samples \<and>
                   make_ndarray_from_tensor t = Inr a \<and> shape a = [nb_samples, 1]) \<and>
            j + i < ncols m \<and> list_all (\<lambda>c. c \<noteq> None) (column m' (j + i))) \<and>
         (\<forall>k < j. k < ncols m \<longrightarrow> column m' k = column m k)"
  using assms(1,2)
proof (induction names arbitrary: j m)
  case Nil
  then show ?case by simp
next
  case (Cons name names)
  from Cons.prems(1) obtain m1 where one: "fill_feature cast request_inputs nb_samples j name m = Inr m1"
    and rest: "fill_features cast request_inputs nb_samples (Suc j) names m1 = Inr m'"
    by (auto split: sum.splits)
  from fill_feature_Inr [OF one] obtain t a vs where f: "request_inputs name = Some t"
    "dim0_size t = Inr nb_samples" "make_ndarray_from_tensor t = Inr a"
    "length (shape a) = 2" "shape a ! 1 = 1" "j < ncols m"
    "cast_all (cast (mat_dtype m)) (data a) = Inr vs"
    and m1: "m1 = m\<lparr>cells := write_column (ncols m) j 0
        (if length vs = nrows m then vs else replicate (nrows m) (hd vs)) (cells m)\<rparr>"
    by blast
  let ?w = "if length vs = nrows m then vs else replicate (nrows m) (hd vs)"
  have w: "length ?w = nrows m" by simp
  have sh: "shape a = [nb_samples, 1]"
    using decode_dim0 [OF f(3,2) assms(3)] f(4,5) by (intro column_shape_eq) simp_all
  have colj: "column m1 j = map Some ?w"
    unfolding m1 using column_after_write [OF f(6) w Cons.prems(2)] .
  have inv1: "length (cells m1) = nrows m1 * ncols m1"
    using Cons.prems(2) by (simp add: m1)
  note IH = Cons.IH [OF rest inv1]
  have dims: "nrows m' = nrows m" "ncols m' = ncols m" "mat_dtype m' = mat_dtype m"
    "length (cells m') = length (cells m)"
    using IH by (simp_all add: m1)
  have earlier: "column m' k = column m1 k" if "k < Suc j" "k < ncols m" for k
    using IH that by (simp add: m1)
  have "(\<exists>t a. request_inputs ((name # names) ! i) = Some t \<and> dim0_size t = Inr nb_samples \<and>
           make_ndarray_from_tensor t = Inr a \<and> shape a = [nb_samples, 1]) \<and>
        j + i < ncols m \<and> list_all (\<lambda>c. c \<noteq> None) (column m' (j + i))"
    if "i < length (name # names)" for i
  proof (cases i)
    case 0
    have "list_all (\<lambda>c. c \<noteq> None) (column m' j)"
      using earlier [of j] f(6) colj by (simp add: list_all_iff)
    then show ?thesis using 0 f sh by auto
  next
    case (Suc i')
    then have "i' < length names" using that by simp
    then show ?thesis using IH Suc by (simp add: m1)
  qed
  moreover have "column m' k = column m k" if "k < j" "k < ncols m" for k
    using earlier [of k] that f(6) column_after_write_other [of j m k ?w] by (simp add: m1)
  ultimately show ?case using dims by blast
qed

section \<open>Sample assembly\<close>

lemma np_empty_Inr:
  "0 \<le> r \<Longrightarrow> 0 \<le> c \<Longrightarrow>
   np_empty r c sd =
     Inr \<lparr>mat_dtype = (case sd of None \<Rightarrow> np_float64 | Some t \<Rightarrow> t), nrows = nat r, ncols = nat c,
          cells = replicate (nat r * nat c) None\<rparr>"
  by (simp add: np_empty_def)

lemma parse_sample_loop:
  assumes "\<forall>n \<in> set features_names. request_inputs n \<noteq> None"
    and "features_names = first_name # others"
    and "request_inputs first_name = Some t0"
    and "dim0_size t0 = Inr nb_samples"
    and "0 \<le> nb_samples" and "0 \<le> nb_features"
  shows "parse_sample cast request_inputs features_names nb_features samples_dtype =
           fill_features cast request_inputs nb_samples 0 features_names
             \<lparr>mat_dtype = (case samples_dtype of None \<Rightarrow> np_float64 | Some t \<Rightarrow> t),
              nrows = nat nb_samples, ncols = nat nb_features,
              cells = replicate (nat nb_samples * nat nb_features) None\<rparr>"
proof -
  have "check_all_exist request_inputs features_names = Inr ()"
    using assms(1) check_all_exist_present by blast
  then show ?thesis
    using assms(2-6) by (simp add: parse_sample_def get_input_def np_empty_Inr)
qed

text \<open>
  C8. When every named feature is present, has \<open>nb_samples\<close> as first declared
  dimension and decodes to an array of shape \<open>(nb_samples, 1)\<close> whose elements numpy
  can store at the element type of the matrix, and the matrix has a column for every
  name, assembly returns a matrix of \<open>nb_samples\<close> rows and \<open>nb_features\<close> columns
  in which column \<open>i\<close> is the flattened decoded array of the \<open>i\<close>-th name, element by
  element in sample order, each stored at the element type of the matrix.
\<close>

theorem parse_sample_columns:
  assumes "features_names \<noteq> []"
    and "int (length features_names) \<le> nb_features"
    and "d = (case samples_dtype of None \<Rightarrow> np_float64 | Some t \<Rightarrow> t)"
    and "\<forall>name \<in> set features_names. column_feature cast request_inputs nb_samples d name"
  shows "\<exists>samples.
           parse_sample cast request_inputs features_names nb_features samples_dtype = Inr samples \<and>
           mat_dtype samples = d \<and> nrows samples = nat nb_samples \<and>
           ncols samples = nat nb_features \<and>
           (\<forall>i < length features_names.
              column samples i =
                map (converted cast d) (decoded_column request_inputs (features_names ! i)))"
proof -
  obtain first_name others where names: "features_names = first_name # others"
    using assms(1) by (cases features_names) auto
  let ?m0 = "\<lparr>mat_dtype = d, nrows = nat nb_samples, ncols = nat nb_features,
      cells = replicate (nat nb_samples * nat nb_features) None\<rparr>"
  have "column_feature cast request_inputs nb_samples d first_name"
    using assms(4) names by simp
  then obtain t0 a0 where t0: "request_inputs first_name = Some t0"
    "dim0_size t0 = Inr nb_samples" and "make_ndarray_from_tensor t0 = Inr a0"
    "shape a0 = [nb_samples, 1]" "list_all (\<lambda>s. converted cast d s \<noteq> None) (data a0)"
    "decoded_column request_inputs first_name = data a0" "length (data a0) = nat nb_samples"
    and ns: "0 \<le> nb_samples"
    by (rule column_feature_D)
  have present: "\<forall>n \<in> set features_names. request_inputs n \<noteq> None"
    using assms(4) by (auto simp add: column_feature_def split: option.splits)
  have nf: "0 \<le> nb_features" using assms(2) by simp
  have run: "parse_sample cast request_inputs features_names nb_features samples_dtype =
      fill_features cast request_inputs nb_samples 0 features_names ?m0"
    using parse_sample_loop [OF present names t0 ns nf] assms(3) by simp
  have "\<exists>m'. fill_features cast request_inputs nb_samples 0 features_names ?m0 = Inr m' \<and>
      nrows m' = nrows ?m0 \<and> ncols m' = ncols ?m0 \<and> mat_dtype m' = mat_dtype ?m0 \<and>
      length (cells m') = length (cells ?m0) \<and>
      (\<forall>i < length features_names. column m' (0 + i) =
         map (converted cast (mat_dtype ?m0)) (decoded_column request_inputs (features_names ! i))) \<and>
      (\<forall>k < 0. column m' k = column ?m0 k)"
    using assms(2,4) by (intro fill_features_columns) simp_all
  then show ?thesis using run by auto
qed

text \<open>Two features of five integers give the five-by-two matrix with columns in name order.\<close>

theorem parse_sample_columns_witness:
  "case parse_sample cast_same request_ab [''a'', ''b''] 2 (Some np_int32) of
     Inl e \<Rightarrow> False
   | Inr samples \<Rightarrow>
       nrows samples = 5 \<and> ncols samples = 2 \<and>
       column samples 0 = [Some (I32 1), Some (I32 2), Some (I32 3), Some (I32 4), Some (I32 5)] \<and>
       column samples 1 = [Some (I32 6), Some (I32 7), Some (I32 8), Some (I32 9), Some (I32 10)]"
proof -
  have cf: "\<forall>name \<in> set [''a'', ''b'']. column_feature cast_same request_ab 5 np_int32 name"
    by code_simp
  have a: "map (converted cast_same np_int32) (decoded_column request_ab ''a'') =
      [Some (I32 1), Some (I32 2), Some (I32 3), Some (I32 4), Some (I32 5)]"
    by code_simp
  have b: "map (converted cast_same np_int32) (decoded_column request_ab ''b'') =
      [Some (I32 6), Some (I32 7), Some (I32 8), Some (I32 9), Some (I32 10)]"
    by code_simp
  from parse_sample_columns [where features_names = "[''a'', ''b'']" and nb_features = 2
      and d = np_int32 and samples_dtype = "Some np_int32" and cast = cast_same
      and request_inputs = request_ab and nb_samples = 5, OF _ _ _ cf]
  obtain samples where
    "parse_sample cast_same request_ab [''a'', ''b''] 2 (Some np_int32) = Inr samples"
    "nrows samples = nat 5" "ncols samples = nat 2"
    "\<forall>i < length [''a'', ''b'']. column samples i =
       map (converted cast_same np_int32) (decoded_column request_ab ([''a'', ''b''] ! i))"
    by auto
  then show ?thesis using a b by (simp add: All_less_Suc)
qed

lemma parse_sample_missing:
  assumes "features_names = pre @ name # post"
    and "\<forall>p \<in> set pre. request_inputs p \<noteq> None" and "request_inputs name = None"
  shows "parse_sample cast request_inputs features_names nb_features samples_dtype =
           Inl (MissingFeature name)"
  using check_all_exist_missing [OF assms(2,3), of post] assms(1)
  by (simp add: parse_sample_def MissingFeature_def)

lemma parse_sample_first_failure:
  assumes "features_names = pre @ name # post"
    and "\<forall>n \<in> set features_names. request_inputs n \<noteq> None"
    and "request_inputs (hd features_names) = Some t_first"
    and "dim0_size t_first = Inr nb_samples"
    and "0 \<le> nb_samples"
    and "int (length pre) \<le> nb_features"
    and "d = (case samples_dtype of None \<Rightarrow> np_float64 | Some t \<Rightarrow> t)"
    and "\<forall>p \<in> set pre. column_feature cast request_inputs nb_samples d p"
  shows "\<exists>m. mat_dtype m = d \<and> nrows m = nat nb_samples \<and> ncols m = nat nb_features \<and>
           parse_sample cast request_inputs features_names nb_features samples_dtype =
             (case fill_feature cast request_inputs nb_samples (length pre) name m of
                Inl e \<Rightarrow> Inl e
              | Inr m' \<Rightarrow>
                  fill_features cast request_inputs nb_samples (Suc (length pre)) post m')"
proof -
  let ?m0 = "\<lparr>mat_dtype = d, nrows = nat nb_samples, ncols = nat nb_features,
      cells = replicate (nat nb_samples * nat nb_features) None\<rparr>"
  have "features_names \<noteq> []" using assms(1) by simp
  then obtain first_name others where names: "features_names = first_name # others"
    by (cases features_names) auto
  have nf: "0 \<le> nb_features" using assms(6) by simp
  have t_first: "request_inputs first_name = Some t_first" using assms(3) names by simp
  have run: "parse_sample cast request_inputs features_names nb_features samples_dtype =
      fill_features cast request_inputs nb_samples 0 features_names ?m0"
    using parse_sample_loop [OF assms(2) names t_first assms(4,5) nf] assms(7) by simp
  have "\<exists>m'. fill_features cast request_inputs nb_samples 0 pre ?m0 = Inr m' \<and>
      nrows m' = nrows ?m0 \<and> ncols m' = ncols ?m0 \<and> mat_dtype m' = mat_dtype ?m0 \<and>
      length (cells m') = length (cells ?m0) \<and>
      (\<forall>i < length pre. column m' (0 + i) =
         map (converted cast (mat_dtype ?m0)) (decoded_column request_inputs (pre ! i))) \<and>
      (\<forall>k < 0. column m' k = column ?m0 k)"
    using assms(6,8) by (intro fill_features_columns) simp_all
  then obtain m where m: "fill_features cast request_inputs nb_samples 0 pre ?m0 = Inr m"
    "nrows m = nat nb_samples" "ncols m = nat nb_features" "mat_dtype m = d"
    by auto
  have "parse_sample cast request_inputs features_names nb_features samples_dtype =
      (case fill_feature cast request_inputs nb_samples (length pre) name m of
         Inl e \<Rightarrow> Inl e
       | Inr m' \<Rightarrow> fill_features cast request_inputs nb_samples (Suc (length pre)) post m')"
    using run m(1) assms(1) by (simp add: fill_features_append)
  with m(2-4) show ?thesis by blast
qed

lemma fill_feature_invalid_length:
  assumes "request_inputs name = Some t" and "dim0_size t = Inr n" and "n \<noteq> nb_samples"
  shows "fill_feature cast request_inputs nb_samples j name m = Inl (InvalidLength name)"
  using assms
  by (simp add: fill_feature_def check_request_valid_length_def get_input_def InvalidLength_def)

lemma fill_feature_invalid_shape:
  assumes "request_inputs name = Some t" and "dim0_size t = Inr nb_samples"
    and "make_ndarray_from_tensor t = Inr a" and "\<not> (length (shape a) = 2 \<and> shape a ! 1 = 1)"
  shows "fill_feature cast request_inputs nb_samples j name m = Inl InvalidShape"
  using assms
  by (auto simp add: fill_feature_def check_request_valid_length_def get_input_def
        check_array_shape_def InvalidShape_def)

lemma parse_sample_Inr:
  assumes "parse_sample cast request_inputs features_names nb_features samples_dtype = Inr samples"
  shows "\<exists>nb_samples. nrows samples = nat nb_samples \<and> ncols samples = nat nb_features \<and>
           (\<forall>i < length features_names.
              (\<exists>t a. request_inputs (features_names ! i) = Some t \<and>
                     dim0_size t = Inr nb_samples \<and>
                     make_ndarray_from_tensor t = Inr a \<and> shape a = [nb_samples, 1]) \<and>
              list_all (\<lambda>c. c \<noteq> None) (column samples i))"
proof -
  from assms obtain first_name others t_first nb_samples m0 where
    names: "features_names = first_name # others"
    and "request_inputs first_name = Some t_first" "dim0_size t_first = Inr nb_samples"
    and m0: "np_empty nb_samples nb_features samples_dtype = Inr m0"
    and run: "fill_features cast request_inputs nb_samples 0 features_names m0 = Inr samples"
    by (auto simp add: parse_sample_def get_input_def split: sum.splits list.splits option.splits)
  from m0 have ns: "0 \<le> nb_samples" and nf: "0 \<le> nb_features"
    and dims: "nrows m0 = nat nb_samples" "ncols m0 = nat nb_features"
    and inv: "length (cells m0) = nrows m0 * ncols m0"
    by (auto simp add: np_empty_def split: if_splits)
  from fill_features_Inr [OF run inv ns] dims
  have "nrows samples = nat nb_samples \<and> ncols samples = nat nb_features \<and>
      (\<forall>i < length features_names.
         (\<exists>t a. request_inputs (features_names ! i) = Some t \<and> dim0_size t = Inr nb_samples \<and>
                make_ndarray_from_tensor t = Inr a \<and> shape a = [nb_samples, 1]) \<and>
         list_all (\<lambda>c. c \<noteq> None) (column samples i))"
    by simp
  then show ?thesis by (rule exI)
qed

text \<open>
  C9 (amended). Assembly fails with \<open>MissingFeature name\<close> for the first name that is
  absent from the request, whatever the tensors of the request are. With every name
  present, let \<open>nb_samples\<close> be the first declared dimension of the first named feature,
  and let it be non-negative. The features are processed in order. Take a named feature
  such that every feature named before it has \<open>nb_samples\<close> as first declared
  dimension, decodes to an array of shape \<open>(nb_samples, 1)\<close> whose elements can be
  stored at the element type of the matrix, and has a column of the matrix: the number
  of features named before it is at most \<open>nb_features\<close>. At that feature assembly
  fails with \<open>InvalidLength name\<close> when the feature has a first declared dimension and
  it is not \<open>nb_samples\<close>, and with \<open>InvalidShape\<close>, which carries no feature name,
  when its first declared dimension is \<open>nb_samples\<close> and it decodes to an array that
  is not two-dimensional with last dimension 1. A matrix is returned only when every
  named feature is present, has \<open>nb_samples\<close> as first declared dimension and decodes
  to an array of shape \<open>(nb_samples, 1)\<close>, and the column of every name is then
  written in full.
\<close>

theorem parse_sample_failures:
  "(features_names = pre @ name # post \<and> (\<forall>p \<in> set pre. request_inputs p \<noteq> None) \<and>
    request_inputs name = None \<longrightarrow>
      parse_sample cast request_inputs features_names nb_features samples_dtype =
        Inl (MissingFeature name)) \<and>
   (features_names = pre @ name # post \<and> (\<forall>n \<in> set features_names. request_inputs n \<noteq> None) \<and>
    request_inputs (hd features_names) = Some t_first \<and> dim0_size t_first = Inr nb_samples \<and>
    0 \<le> nb_samples \<and> int (length pre) \<le> nb_features \<and>
    d = (case samples_dtype of None \<Rightarrow> np_float64 | Some t \<Rightarrow> t) \<and>
    (\<forall>p \<in> set pre. column_feature cast request_inputs nb_samples d p) \<and>
    request_inputs name = Some t \<longrightarrow>
      (dim0_size t = Inr n \<and> n \<noteq> nb_samples \<longrightarrow>
         parse_sample cast request_inputs features_names nb_features samples_dtype =
           Inl (InvalidLength name)) \<and>
      (dim0_size t = Inr nb_samples \<and> make_ndarray_from_tensor t = Inr a \<and>
       \<not> (length (shape a) = 2 \<and> shape a ! 1 = 1) \<longrightarrow>
         parse_sample cast request_inputs features_names nb_features samples_dtype =
           Inl InvalidShape)) \<and>
   (parse_sample cast request_inputs features_names nb_features samples_dtype = Inr samples \<longrightarrow>
      (\<exists>nb_samples. nrows samples = nat nb_samples \<and> ncols samples = nat nb_features \<and>
         (\<forall>i < length features_names.
            (\<exists>t a. request_inputs (features_names ! i) = Some t \<and>
                   dim0_size t = Inr nb_samples \<and>
                   make_ndarray_from_tensor t = Inr a \<and> shape a = [nb_samples, 1]) \<and>
            list_all (\<lambda>c. c \<noteq> None) (column samples i))))"
proof (intro conjI impI)
  assume "features_names = pre @ name # post \<and> (\<forall>p \<in> set pre. request_inputs p \<noteq> None) \<and>
    request_inputs name = None"
  then show "parse_sample cast request_inputs features_names nb_features samples_dtype =
      Inl (MissingFeature name)"
    by (elim conjE) (rule parse_sample_missing)
next
  assume h: "features_names = pre @ name # post \<and>
    (\<forall>n \<in> set features_names. request_inputs n \<noteq> None) \<and>
    request_inputs (hd features_names) = Some t_first \<and> dim0_size t_first = Inr nb_samples \<and>
    0 \<le> nb_samples \<and> int (length pre) \<le> nb_features \<and>
    d = (case samples_dtype of None \<Rightarrow> np_float64 | Some t \<Rightarrow> t) \<and>
    (\<forall>p \<in> set pre. column_feature cast request_inputs nb_samples d p) \<and>
    request_inputs name = Some t"
  then obtain m where run:
    "parse_sample cast request_inputs features_names nb_features samples_dtype =
       (case fill_feature cast request_inputs nb_samples (length pre) name m of
          Inl e \<Rightarrow> Inl e
        | Inr m' \<Rightarrow> fill_features cast request_inputs nb_samples (Suc (length pre)) post m')"
    using parse_sample_first_failure [of features_names pre name post request_inputs t_first
        nb_samples nb_features d samples_dtype cast]
    by blast
  from h have t: "request_inputs name = Some t" by simp
  {
    assume "dim0_size t = Inr n \<and> n \<noteq> nb_samples"
    then show "parse_sample cast request_inputs features_names nb_features samples_dtype =
        Inl (InvalidLength name)"
      using run fill_feature_invalid_length [where request_inputs = request_inputs, OF t, of n nb_samples]
      by simp
  }
  {
    assume "dim0_size t = Inr nb_samples \<and> make_ndarray_from_tensor t = Inr a \<and>
      \<not> (length (shape a) = 2 \<and> shape a ! 1 = 1)"
    then show "parse_sample cast request_inputs features_names nb_features samples_dtype =
        Inl InvalidShape"
      using run fill_feature_invalid_shape [where request_inputs = request_inputs, OF t, of nb_samples a]
      by simp
  }
next
  assume "parse_sample cast request_inputs features_names nb_features samples_dtype = Inr samples"
  then show "\<exists>nb_samples. nrows samples = nat nb_samples \<and> ncols samples = nat nb_features \<and>
      (\<forall>i < length features_names.
         (\<exists>t a. request_inputs (features_names ! i) = Some t \<and> dim0_size t = Inr nb_samples \<and>
                make_ndarray_from_tensor t = Inr a \<and> shape a = [nb_samples, 1]) \<and>
         list_all (\<lambda>c. c \<noteq> None) (column samples i))"
    by (rule parse_sample_Inr)
qed

text \<open>
  Leaving \<^verbatim>\<open>"b"\<close> out fails with \<open>MissingFeature ''b''\<close>, four samples for \<^verbatim>\<open>"b"\<close>
  with \<open>InvalidLength ''b''\<close>, the shape \<open>[5, 2]\<close> for \<^verbatim>\<open>"a"\<close> with \<open>InvalidShape\<close>;
  the matrix of the complete request has both columns written.
\<close>

theorem parse_sample_failures_witness:
  "parse_sample cast_same request_a [''a'', ''b''] 2 (Some np_int32) = Inl (MissingFeature ''b'') \<and>
   parse_sample cast_same request_short_b [''a'', ''b''] 2 (Some np_int32) =
     Inl (InvalidLength ''b'') \<and>
   parse_sample cast_same request_wide_a [''a'', ''b''] 2 (Some np_int32) = Inl InvalidShape \<and>
   parse_sample cast_same request_ab [''a'', ''b''] 2 (Some np_int32) = Inr samples_ab \<and>
   list_all (\<lambda>c. c \<noteq> None) (column samples_ab 0) \<and>
   list_all (\<lambda>c. c \<noteq> None) (column samples_ab 1)"
proof -
  let ?names = "[''a'', ''b'']" and ?sd = "Some np_int32"
  let ?ta = "t_column [5, 1] [1, 2, 3, 4, 5]"
  have m: "?names = [''a''] @ ''b'' # [] \<and> (\<forall>p \<in> set [''a'']. request_a p \<noteq> None) \<and>
      request_a ''b'' = None"
    by (simp add: request_a_def)
  note missing = parse_sample_failures [where features_names = ?names and pre = "[''a'']"
      and name = "''b''" and post = "[]" and request_inputs = request_a and cast = cast_same
      and nb_features = 2 and samples_dtype = ?sd, THEN conjunct1, THEN mp, OF m]
  let ?tb = "t_column [4, 1] [6, 7, 8, 9]"
  have "column_feature cast_same request_short_b 5 np_int32 ''a''"
    by code_simp
  then have l: "?names = [''a''] @ ''b'' # [] \<and>
      (\<forall>n \<in> set ?names. request_short_b n \<noteq> None) \<and>
      request_short_b (hd ?names) = Some ?ta \<and> dim0_size ?ta = Inr 5 \<and> (0::int) \<le> 5 \<and>
      int (length [''a'']) \<le> 2 \<and>
      np_int32 = (case ?sd of None \<Rightarrow> np_float64 | Some t \<Rightarrow> t) \<and>
      (\<forall>p \<in> set [''a'']. column_feature cast_same request_short_b 5 np_int32 p) \<and>
      request_short_b ''b'' = Some ?tb"
    by (simp add: request_short_b_def dim0_size_def t_column_def)
  have l': "dim0_size ?tb = Inr 4 \<and> (4::int) \<noteq> 5"
    by (simp add: dim0_size_def t_column_def)
  note len = parse_sample_failures [where features_names = ?names and pre = "[''a'']"
      and name = "''b''" and post = "[]" and request_inputs = request_short_b
      and cast = cast_same and nb_features = 2 and samples_dtype = ?sd and t_first = ?ta
      and nb_samples = 5 and d = np_int32 and t = ?tb and n = 4,
      THEN conjunct2, THEN conjunct1, THEN mp, OF l, THEN conjunct1, THEN mp, OF l']
  let ?tw = "t_column [5, 2] [1, 2, 3, 4, 5, 6, 7, 8, 9, 10]"
  let ?aw = "\<lparr>byteorder = Native, dtype = np_int32, shape = [5, 2],
      data = [I32 1, I32 2, I32 3, I32 4, I32 5, I32 6, I32 7, I32 8, I32 9, I32 10]\<rparr>"
  have s: "?names = [] @ ''a'' # [''b''] \<and>
      (\<forall>n \<in> set ?names. request_wide_a n \<noteq> None) \<and>
      request_wide_a (hd ?names) = Some ?tw \<and> dim0_size ?tw = Inr 5 \<and> (0::int) \<le> 5 \<and>
      int (length ([] :: string list)) \<le> 2 \<and>
      np_int32 = (case ?sd of None \<Rightarrow> np_float64 | Some t \<Rightarrow> t) \<and>
      (\<forall>p \<in> set []. column_feature cast_same request_wide_a 5 np_int32 p) \<and>
      request_wide_a ''a'' = Some ?tw"
    by (simp add: request_wide_a_def dim0_size_def t_column_def)
  have "make_ndarray_from_tensor ?tw = Inr ?aw"
    by code_simp
  then have s': "dim0_size ?tw = Inr 5 \<and> make_ndarray_from_tensor ?tw = Inr ?aw \<and>
      \<not> (length (shape ?aw) = 2 \<and> shape ?aw ! 1 = 1)"
    by (simp add: dim0_size_def t_column_def)
  note shp = parse_sample_failures [where features_names = ?names and pre = "[]"
      and name = "''a''" and post = "[''b'']" and request_inputs = request_wide_a
      and cast = cast_same and nb_features = 2 and samples_dtype = ?sd and t_first = ?tw
      and nb_samples = 5 and d = np_int32 and t = ?tw and a = ?aw,
      THEN conjunct2, THEN conjunct1, THEN mp, OF s, THEN conjunct2, THEN mp, OF s']
  have ok: "parse_sample cast_same request_ab ?names 2 ?sd = Inr samples_ab"
    by code_simp
  from parse_sample_failures [where features_names = ?names and request_inputs = request_ab
      and cast = cast_same and nb_features = 2 and samples_dtype = ?sd and samples = samples_ab,
      THEN conjunct2, THEN conjunct2, THEN mp, OF ok]
  have "list_all (\<lambda>c. c \<noteq> None) (column samples_ab 0) \<and>
      list_all (\<lambda>c. c \<noteq> None) (column samples_ab 1)"
    by (auto simp add: All_less_Suc)
  with missing len shp ok show ?thesis by simp
qed

text \<open>
  The claim as stated fails. The error for a feature of shape \<open>[5, 2]\<close> is the same
  whatever the feature is called: it does not name the feature. And a feature whose
  first declared dimension is not \<open>nb_samples\<close> is not always reported: with a matrix
  of no columns the assignment of the column of \<^verbatim>\<open>"a"\<close> raises \<^verbatim>\<open>IndexError\<close> before
  the four samples of \<^verbatim>\<open>"b"\<close> are looked at.
\<close>

theorem parse_sample_failures_counterexample:
  "parse_sample cast_same request_wide_a [''a''] 1 (Some np_int32) =
     Inl (PythieServingException ''All input vectors should be 1D tensor'') \<and>
   parse_sample cast_same request_wide_b [''b''] 1 (Some np_int32) =
     Inl (PythieServingException ''All input vectors should be 1D tensor'') \<and>
   parse_sample cast_same request_short_b [''a'', ''b''] 0 (Some np_int32) = Inl IndexError \<and>
   IndexError \<noteq> InvalidLength ''b''"
  by code_simp

end
